theory Spec2Isabelle
  imports Main "HOL-Library.Word" "HOL-Library.Monad_Syntax"
begin

unbundle bit_operations_syntax

section \<open>Machine integers\<close>

text \<open>
  The fixed-width integers of the C++ sources. \<open>size_t\<close> is taken as 64 bits wide
  (an LP64 target); nothing below depends on the width beyond the number of bytes a
  \<open>size_t\<close> field occupies in a save state. Sizes that are only ever used as lengths
  and array offsets (\<open>_size_prg\<close>, \<open>_size_chr\<close>, ...) are natural numbers.
\<close>

type_synonym u8 = "8 word"
type_synonym u16 = "16 word"
type_synonym u32 = "32 word"
type_synonym size_t = "64 word"

section \<open>The dump primitive\<close>

text \<open>
  \<open>mapper.hpp\<close> includes \<open>utils.hpp\<close>, which declares \<open>DumpOperation\<close> and the
  overloads of \<open>cynes::dump\<close> that every \<open>dump\<close> member function calls; \<open>utils.hpp\<close>
  is not among the files verified here. The definitions of this section stand for it.
\<close>

text \<open>
  Modelled from the spec: the direction of a dump (\<open>DumpOperation\<close> of \<open>utils.hpp\<close>),
  \<open>WRITE\<close> or \<open>READ\<close>.
\<close>

datatype DumpOperation = WRITE | READ

text \<open>
  Modelled from the spec: the advancing byte cursor of \<open>cynes::dump\<close> (\<open>utils.hpp\<close>).
  It is a byte list: in \<open>WRITE\<close> mode the bytes emitted so far (a write appends), in
  \<open>READ\<close> mode the bytes not yet consumed (a read removes a prefix).
\<close>

type_synonym cursor = "u8 list"

text \<open>
  Modelled from the spec: the bytes of a fixed-width integer as \<open>cynes::dump\<close>
  (\<open>utils.hpp\<close>) writes them, little-endian, and the integer that a sequence of bytes
  denotes.
\<close>

fun to_le :: "nat \<Rightarrow> 'a::len word \<Rightarrow> u8 list" where
  "to_le 0 w = []"
| "to_le (Suc n) w = ucast w # to_le n (drop_bit 8 w)"

fun of_le :: "u8 list \<Rightarrow> 'a::len word" where
  "of_le [] = 0"
| "of_le (b # bs) = ucast b OR push_bit 8 (of_le bs)"

text \<open>
  Modelled from the spec: the native width in bytes of a fixed-width integer field
  (\<open>sizeof(T)\<close> in \<open>cynes::dump\<close> of \<open>utils.hpp\<close>).
\<close>

definition sizeof_word :: "'a::len word \<Rightarrow> nat" where
  "sizeof_word w = LENGTH('a) div 8"

text \<open>
  Modelled from the spec: \<open>cynes::dump\<close> (\<open>utils.hpp\<close>) on a fixed-width integer field.
  In \<open>WRITE\<close> mode it copies the field into the cursor; in \<open>READ\<close> mode it copies from
  the cursor into the field. Reading past the end of the buffer, which the C++ cannot
  detect, is the result \<open>None\<close>.
\<close>

definition dump_word :: "DumpOperation \<Rightarrow> cursor \<Rightarrow> 'a::len word \<Rightarrow> (cursor \<times> 'a word) option" where
  "dump_word operation buffer v =
     (case operation of
        WRITE \<Rightarrow> Some (buffer @ to_le (sizeof_word v) v, v)
      | READ \<Rightarrow>
          if length buffer < sizeof_word v then None
          else Some (drop (sizeof_word v) buffer, of_le (take (sizeof_word v) buffer)))"

text \<open>
  Modelled from the spec: the bytes of an integer field in a save state (\<open>cynes::dump\<close>
  of \<open>utils.hpp\<close>): little-endian, native width.
\<close>

definition word_bytes :: "'a::len word \<Rightarrow> u8 list" where
  "word_bytes v = to_le (sizeof_word v) v"

text \<open>
  Modelled from the spec: the byte of a boolean field in a save state (\<open>cynes::dump\<close> of
  \<open>utils.hpp\<close>), 1 for true and 0 for false.
\<close>

definition bool_byte :: "bool \<Rightarrow> u8" where
  "bool_byte b = (if b then 1 else 0)"

text \<open>
  Modelled from the spec: \<open>cynes::dump\<close> (\<open>utils.hpp\<close>) on a boolean field, one byte; a
  byte read back is true when it is not zero.
\<close>

definition dump_bool :: "DumpOperation \<Rightarrow> cursor \<Rightarrow> bool \<Rightarrow> (cursor \<times> bool) option" where
  "dump_bool operation buffer v =
     (case operation of
        WRITE \<Rightarrow> Some (buffer @ [bool_byte v], v)
      | READ \<Rightarrow>
          (case buffer of
             [] \<Rightarrow> None
           | b # rest \<Rightarrow> Some (rest, b \<noteq> 0)))"

text \<open>
  Modelled from the spec: \<open>cynes::dump\<close> (\<open>utils.hpp\<close>) on a fixed-size array field
  (\<open>uint8_t _registers[0x4]\<close>, \<open>bool _latches[0x2]\<close>). The array is copied as one block
  of \<open>sizeof\<close> bytes; its elements lie in it in index order without padding, so the
  block is the elements' bytes one after the other.
\<close>

fun dump_array ::
  "(cursor \<Rightarrow> 'a \<Rightarrow> (cursor \<times> 'a) option) \<Rightarrow> cursor \<Rightarrow> 'a list \<Rightarrow> (cursor \<times> 'a list) option"
where
  "dump_array f buffer [] = Some (buffer, [])"
| "dump_array f buffer (x # xs) =
     do {
       (buffer, x') \<leftarrow> f buffer x;
       (buffer, xs') \<leftarrow> dump_array f buffer xs;
       Some (buffer, x' # xs')
     }"

text \<open>
  Modelled from the spec: the pointer-and-size overload of \<open>cynes::dump\<close> (\<open>utils.hpp\<close>),
  \<open>dump(buffer, values, size)\<close> on bytes. The field is the region of \<open>size\<close> bytes of the
  byte array that starts at an offset: \<open>region\<close> reads it, \<open>set_region\<close> overwrites it.
\<close>

definition region :: "u8 list \<Rightarrow> nat \<Rightarrow> nat \<Rightarrow> u8 list" where
  "region mem off n = take n (drop off mem)"

definition set_region :: "u8 list \<Rightarrow> nat \<Rightarrow> u8 list \<Rightarrow> u8 list" where
  "set_region mem off bs = take off mem @ bs @ drop (off + length bs) mem"

definition dump_region ::
  "DumpOperation \<Rightarrow> cursor \<Rightarrow> u8 list \<Rightarrow> nat \<Rightarrow> nat \<Rightarrow> (cursor \<times> u8 list) option"
where
  "dump_region operation buffer mem off n =
     (case operation of
        WRITE \<Rightarrow> Some (buffer @ region mem off n, mem)
      | READ \<Rightarrow>
          if length buffer < n then None
          else Some (drop n buffer, set_region mem off (take n buffer)))"

section \<open>The mapper base class (mapper.hpp)\<close>

datatype MirroringMode = NONE | ONE_SCREEN_LOW | ONE_SCREEN_HIGH | HORIZONTAL | VERTICAL

text \<open>\<open>Mapper::MemoryBank\<close>: a view of \<open>0x400\<close> bytes within the mapper memory.\<close>

record MemoryBank =
  offset :: size_t
  read_only :: bool
  mapped :: bool

definition MemoryBank_dump ::
  "DumpOperation \<Rightarrow> cursor \<Rightarrow> MemoryBank \<Rightarrow> (cursor \<times> MemoryBank) option"
where
  "MemoryBank_dump operation buffer bank =
     do {
       (buffer, off) \<leftarrow> dump_word operation buffer (offset bank);
       (buffer, ro) \<leftarrow> dump_bool operation buffer (read_only bank);
       (buffer, mp) \<leftarrow> dump_bool operation buffer (mapped bank);
       Some (buffer, bank\<lparr>offset := off, read_only := ro, mapped := mp\<rparr>)
     }"

text \<open>The data members of \<open>Mapper\<close> (the reference \<open>_nes\<close> apart).\<close>

record Mapper =
  banks_prg :: u16
  banks_chr :: u16
  banks_cpu_ram :: u8
  banks_ppu_ram :: u8
  size_prg :: nat
  size_chr :: nat
  size_cpu_ram :: nat
  size_ppu_ram :: nat
  read_only_chr :: bool
  memory :: "u8 list"
  banks_cpu :: "MemoryBank list"
  banks_ppu :: "MemoryBank list"

text \<open>
  The loops of \<open>Mapper::dump\<close>,
  \<^verbatim>\<open>for (uint8_t k = 0x00; k < n; k++) { banks[k].dump<operation>(buffer); }\<close>
  with \<open>n = 0x40\<close> for the CPU banks and \<open>n = 0x10\<close> for the PPU banks.
\<close>

function dump_banks ::
  "DumpOperation \<Rightarrow> nat \<Rightarrow> nat \<Rightarrow> cursor \<Rightarrow> MemoryBank list \<Rightarrow> (cursor \<times> MemoryBank list) option"
where
  "dump_banks operation k n buffer banks =
     (if k < n then
        do {
          (buffer, bank) \<leftarrow> MemoryBank_dump operation buffer (banks ! k);
          dump_banks operation (k + 1) n buffer (banks[k := bank])
        }
      else Some (buffer, banks))"
  by pat_completeness auto
termination
  by (relation "measure (\<lambda>(operation, k, n, buffer, banks). n - k)") auto

declare dump_banks.simps [simp del]

definition Mapper_dump ::
  "DumpOperation \<Rightarrow> cursor \<Rightarrow> Mapper \<Rightarrow> (cursor \<times> Mapper) option"
where
  "Mapper_dump operation buffer m =
     do {
       (buffer, bc) \<leftarrow> dump_banks operation 0 0x40 buffer (banks_cpu m);
       (buffer, bp) \<leftarrow> dump_banks operation 0 0x10 buffer (banks_ppu m);
       (buffer, mem) \<leftarrow>
         (if \<not> read_only_chr m
          then dump_region operation buffer (memory m) (size_prg m) (size_chr m)
          else Some (buffer, memory m));
       (buffer, mem) \<leftarrow>
         (if size_cpu_ram m \<noteq> 0
          then dump_region operation buffer mem (size_prg m + size_chr m) (size_cpu_ram m)
          else Some (buffer, mem));
       (buffer, mem) \<leftarrow>
         (if size_ppu_ram m \<noteq> 0
          then dump_region operation buffer mem
                 (size_prg m + size_chr m + size_cpu_ram m) (size_ppu_ram m)
          else Some (buffer, mem));
       Some (buffer, m\<lparr>banks_cpu := bc, banks_ppu := bp, memory := mem\<rparr>)
     }"

section \<open>The mapper variants that extend the save state (mapper.hpp)\<close>

text \<open>
  A derived class is the base object together with its own data members; its \<open>dump\<close>
  first runs \<open>Mapper::dump\<close> on the base object and then walks its own members.
\<close>

record MMC1 =
  mmc1_mapper :: Mapper
  mmc1_tick :: u8
  mmc1_registers :: "u8 list"
  mmc1_register :: u8
  mmc1_counter :: u8

definition MMC1_dump :: "DumpOperation \<Rightarrow> cursor \<Rightarrow> MMC1 \<Rightarrow> (cursor \<times> MMC1) option" where
  "MMC1_dump operation buffer x =
     do {
       (buffer, b) \<leftarrow> Mapper_dump operation buffer (mmc1_mapper x);
       (buffer, t) \<leftarrow> dump_word operation buffer (mmc1_tick x);
       (buffer, rs) \<leftarrow> dump_array (dump_word operation) buffer (mmc1_registers x);
       (buffer, r) \<leftarrow> dump_word operation buffer (mmc1_register x);
       (buffer, c) \<leftarrow> dump_word operation buffer (mmc1_counter x);
       Some (buffer, x\<lparr>mmc1_mapper := b, mmc1_tick := t, mmc1_registers := rs,
                        mmc1_register := r, mmc1_counter := c\<rparr>)
     }"

record MMC3 =
  mmc3_mapper :: Mapper
  mmc3_tick :: u32
  mmc3_registers :: "u32 list"
  mmc3_counter :: u16
  mmc3_counter_reset_value :: u16
  mmc3_register_target :: u8
  mmc3_mode_prg :: bool
  mmc3_mode_chr :: bool
  mmc3_enable_interrupt :: bool
  mmc3_should_reload_interrupt :: bool

definition MMC3_dump :: "DumpOperation \<Rightarrow> cursor \<Rightarrow> MMC3 \<Rightarrow> (cursor \<times> MMC3) option" where
  "MMC3_dump operation buffer x =
     do {
       (buffer, b) \<leftarrow> Mapper_dump operation buffer (mmc3_mapper x);
       (buffer, t) \<leftarrow> dump_word operation buffer (mmc3_tick x);
       (buffer, rs) \<leftarrow> dump_array (dump_word operation) buffer (mmc3_registers x);
       (buffer, c) \<leftarrow> dump_word operation buffer (mmc3_counter x);
       (buffer, cr) \<leftarrow> dump_word operation buffer (mmc3_counter_reset_value x);
       (buffer, rt) \<leftarrow> dump_word operation buffer (mmc3_register_target x);
       (buffer, mp) \<leftarrow> dump_bool operation buffer (mmc3_mode_prg x);
       (buffer, mc) \<leftarrow> dump_bool operation buffer (mmc3_mode_chr x);
       (buffer, ei) \<leftarrow> dump_bool operation buffer (mmc3_enable_interrupt x);
       (buffer, sr) \<leftarrow> dump_bool operation buffer (mmc3_should_reload_interrupt x);
       Some (buffer, x\<lparr>mmc3_mapper := b, mmc3_tick := t, mmc3_registers := rs,
                        mmc3_counter := c, mmc3_counter_reset_value := cr,
                        mmc3_register_target := rt, mmc3_mode_prg := mp, mmc3_mode_chr := mc,
                        mmc3_enable_interrupt := ei, mmc3_should_reload_interrupt := sr\<rparr>)
     }"

text \<open>
  The generic \<open>MMC<BANK_SIZE>\<close> (MMC2 and MMC4). The base object is a type parameter:
  \<open>Mapper\<close> for the save state, and any state on which the base class's member
  functions act for the bus operations below.
\<close>

record 'b MMC =
  mmc_mapper :: 'b
  latches :: "bool list"
  selected_banks :: "u8 list"

definition MMC_dump ::
  "DumpOperation \<Rightarrow> cursor \<Rightarrow> Mapper MMC \<Rightarrow> (cursor \<times> Mapper MMC) option"
where
  "MMC_dump operation buffer x =
     do {
       (buffer, b) \<leftarrow> Mapper_dump operation buffer (mmc_mapper x);
       (buffer, ls) \<leftarrow> dump_array (dump_bool operation) buffer (latches x);
       (buffer, sb) \<leftarrow> dump_array (dump_word operation) buffer (selected_banks x);
       Some (buffer, x\<lparr>mmc_mapper := b, latches := ls, selected_banks := sb\<rparr>)
     }"

section \<open>The bus operations of MMC2 and MMC4 (mapper.hpp)\<close>

text \<open>
  The member functions of \<open>Mapper\<close> that \<open>MMC\<close> calls are declared in \<open>mapper.hpp\<close> and
  defined in \<open>mapper.cpp\<close>, which is not among the files verified here. They are
  parameters of the model: functions on the base object \<open>'b\<close>. Being members of the base
  class they cannot reach the private members \<open>_latches\<close> and \<open>_selected_banks\<close> of
  \<open>MMC\<close>. The three-argument overloads \<open>(page, size, address)\<close> are the ones \<open>MMC\<close> uses.
\<close>

record 'b Mapper_members =
  Mapper_write_cpu :: "u16 \<Rightarrow> u8 \<Rightarrow> 'b \<Rightarrow> 'b"
  Mapper_read_ppu :: "u16 \<Rightarrow> 'b \<Rightarrow> u8 \<times> 'b"
  map_bank_prg :: "u8 \<Rightarrow> u8 \<Rightarrow> u16 \<Rightarrow> 'b \<Rightarrow> 'b"
  map_bank_chr :: "u8 \<Rightarrow> u8 \<Rightarrow> u16 \<Rightarrow> 'b \<Rightarrow> 'b"
  map_bank_cpu_ram :: "u8 \<Rightarrow> u8 \<Rightarrow> u16 \<Rightarrow> bool \<Rightarrow> 'b \<Rightarrow> 'b"
  set_mirroring_mode :: "MirroringMode \<Rightarrow> 'b \<Rightarrow> 'b"
  get_banks_prg :: "'b \<Rightarrow> u16"

text \<open>
  The constructor, after the base constructor has built \<open>b\<close>. The integer expressions
  \<open>0x20 + BANK_SIZE\<close> and \<open>_banks_prg - 0x20 + BANK_SIZE\<close> are computed in \<open>int\<close> and
  converted to the parameter types \<open>uint8_t\<close> and \<open>uint16_t\<close>, that is, modulo \<open>2^8\<close>
  and \<open>2^16\<close>.
\<close>

definition MMC_init :: "'b Mapper_members \<Rightarrow> u8 \<Rightarrow> 'b \<Rightarrow> 'b MMC" where
  "MMC_init M BANK_SIZE b =
     (let b = map_bank_chr M 0x0 0x8 0x0 b;
          b = map_bank_prg M 0x20 BANK_SIZE 0x0 b;
          b = map_bank_prg M (0x20 + BANK_SIZE) (0x20 - BANK_SIZE)
                (get_banks_prg M b - 0x20 + ucast BANK_SIZE) b;
          b = map_bank_cpu_ram M 0x18 0x8 0x0 True b
      in \<lparr>mmc_mapper = b, latches = replicate 0x2 False, selected_banks = replicate 0x4 0x0\<rparr>)"

text \<open>
  \<open>_selected_banks[i] << 2\<close> promotes the byte to \<open>int\<close> before shifting, so no bit is
  lost; the result is converted to the \<open>uint16_t\<close> parameter.
\<close>

definition update_banks :: "'b Mapper_members \<Rightarrow> 'b MMC \<Rightarrow> 'b MMC" where
  "update_banks M x =
     (let b = mmc_mapper x;
          b = (if latches x ! 0
               then map_bank_chr M 0x0 0x4 (push_bit 2 (ucast (selected_banks x ! 0x0))) b
               else map_bank_chr M 0x0 0x4 (push_bit 2 (ucast (selected_banks x ! 0x1))) b);
          b = (if latches x ! 1
               then map_bank_chr M 0x4 0x4 (push_bit 2 (ucast (selected_banks x ! 0x2))) b
               else map_bank_chr M 0x4 0x4 (push_bit 2 (ucast (selected_banks x ! 0x3))) b)
      in x\<lparr>mmc_mapper := b\<rparr>)"

text \<open>\<open>(value & 0xF) * BANK_SIZE\<close> is computed in \<open>int\<close> (at most \<open>15 * 255\<close>).\<close>

definition MMC_write_cpu :: "'b Mapper_members \<Rightarrow> u8 \<Rightarrow> u16 \<Rightarrow> u8 \<Rightarrow> 'b MMC \<Rightarrow> 'b MMC" where
  "MMC_write_cpu M BANK_SIZE address val x =
     (if address < 0xA000 then
        x\<lparr>mmc_mapper := Mapper_write_cpu M address val (mmc_mapper x)\<rparr>
      else if address < 0xB000 then
        x\<lparr>mmc_mapper :=
            map_bank_prg M 0x20 BANK_SIZE (ucast (val AND 0xF) * ucast BANK_SIZE) (mmc_mapper x)\<rparr>
      else if address < 0xC000 then
        update_banks M (x\<lparr>selected_banks := (selected_banks x)[0x0 := val AND 0x1F]\<rparr>)
      else if address < 0xD000 then
        update_banks M (x\<lparr>selected_banks := (selected_banks x)[0x1 := val AND 0x1F]\<rparr>)
      else if address < 0xE000 then
        update_banks M (x\<lparr>selected_banks := (selected_banks x)[0x2 := val AND 0x1F]\<rparr>)
      else if address < 0xF000 then
        update_banks M (x\<lparr>selected_banks := (selected_banks x)[0x3 := val AND 0x1F]\<rparr>)
      else if val AND 0x01 \<noteq> 0 then
        x\<lparr>mmc_mapper := set_mirroring_mode M HORIZONTAL (mmc_mapper x)\<rparr>
      else
        x\<lparr>mmc_mapper := set_mirroring_mode M VERTICAL (mmc_mapper x)\<rparr>)"

definition MMC_read_ppu :: "'b Mapper_members \<Rightarrow> u16 \<Rightarrow> 'b MMC \<Rightarrow> u8 \<times> 'b MMC" where
  "MMC_read_ppu M address x =
     (let (val, b) = Mapper_read_ppu M address (mmc_mapper x);
          x = x\<lparr>mmc_mapper := b\<rparr>;
          x = (if address = 0x0FD8 then
                 update_banks M (x\<lparr>latches := (latches x)[0 := True]\<rparr>)
               else if address = 0x0FE8 then
                 update_banks M (x\<lparr>latches := (latches x)[0 := False]\<rparr>)
               else if address \<ge> 0x1FD8 \<and> address < 0x1FE0 then
                 update_banks M (x\<lparr>latches := (latches x)[1 := True]\<rparr>)
               else if address \<ge> 0x1FE8 \<and> address < 0x1FF0 then
                 update_banks M (x\<lparr>latches := (latches x)[1 := False]\<rparr>)
               else x)
      in (val, x))"

text \<open>The addresses at which a PPU read switches a latch.\<close>

definition latch_trigger :: "u16 \<Rightarrow> bool" where
  "latch_trigger address \<longleftrightarrow>
     address = 0x0FD8 \<or> address = 0x0FE8 \<or>
     (0x1FD8 \<le> address \<and> address \<le> 0x1FDF) \<or> (0x1FE8 \<le> address \<and> address \<le> 0x1FEF)"

section \<open>The layout of the mapper's segment of a save state\<close>

text \<open>
  The invariants of the data. \<open>std::array<MemoryBank, 0x40>\<close> and
  \<open>std::array<MemoryBank, 0x10>\<close> have 64 and 16 elements. The byte array is allocated
  by the constructor in \<open>mapper.cpp\<close>; that it is the concatenation
  \<open>[PRG | CHR | CPU work RAM | PPU work RAM]\<close>, so that the regions \<open>Mapper::dump\<close>
  walks lie within it, is taken from the spec. The array members of the variants have
  their declared sizes.
\<close>

definition Mapper_wf :: "Mapper \<Rightarrow> bool" where
  "Mapper_wf m \<longleftrightarrow>
     length (banks_cpu m) = 0x40 \<and> length (banks_ppu m) = 0x10 \<and>
     length (memory m) = size_prg m + size_chr m + size_cpu_ram m + size_ppu_ram m"

text \<open>Two states of the same ROM agree on the constant members that the walk reads.\<close>

definition same_rom :: "Mapper \<Rightarrow> Mapper \<Rightarrow> bool" where
  "same_rom m m' \<longleftrightarrow>
     size_prg m' = size_prg m \<and> size_chr m' = size_chr m \<and>
     size_cpu_ram m' = size_cpu_ram m \<and> size_ppu_ram m' = size_ppu_ram m \<and>
     read_only_chr m' = read_only_chr m"

definition MMC1_wf :: "MMC1 \<Rightarrow> bool" where
  "MMC1_wf x \<longleftrightarrow> Mapper_wf (mmc1_mapper x) \<and> length (mmc1_registers x) = 0x4"

definition MMC3_wf :: "MMC3 \<Rightarrow> bool" where
  "MMC3_wf x \<longleftrightarrow> Mapper_wf (mmc3_mapper x) \<and> length (mmc3_registers x) = 0x8"

definition MMC_wf :: "'b MMC \<Rightarrow> bool" where
  "MMC_wf x \<longleftrightarrow> length (latches x) = 0x2 \<and> length (selected_banks x) = 0x4"

text \<open>
  The segment as the spec describes it: the 64 CPU bank entries, then the 16 PPU bank
  entries, then the CHR region (when CHR is RAM), then the CPU work RAM (if present),
  then the PPU work RAM (if present), then the variant-specific fields.
\<close>

definition bank_bytes :: "MemoryBank \<Rightarrow> u8 list" where
  "bank_bytes b = to_le 8 (offset b) @ [bool_byte (read_only b)] @ [bool_byte (mapped b)]"

definition chr_bytes :: "Mapper \<Rightarrow> u8 list" where
  "chr_bytes m = (if \<not> read_only_chr m then region (memory m) (size_prg m) (size_chr m) else [])"

definition cpu_ram_bytes :: "Mapper \<Rightarrow> u8 list" where
  "cpu_ram_bytes m =
     (if size_cpu_ram m \<noteq> 0
      then region (memory m) (size_prg m + size_chr m) (size_cpu_ram m) else [])"

definition ppu_ram_bytes :: "Mapper \<Rightarrow> u8 list" where
  "ppu_ram_bytes m =
     (if size_ppu_ram m \<noteq> 0
      then region (memory m) (size_prg m + size_chr m + size_cpu_ram m) (size_ppu_ram m) else [])"

definition mapper_segment :: "Mapper \<Rightarrow> u8 list \<Rightarrow> u8 list" where
  "mapper_segment m variant_fields =
     concat (map bank_bytes (take 64 (banks_cpu m))) @
     concat (map bank_bytes (take 16 (banks_ppu m))) @
     chr_bytes m @ cpu_ram_bytes m @ ppu_ram_bytes m @ variant_fields"

definition MMC1_fields :: "MMC1 \<Rightarrow> u8 list" where
  "MMC1_fields x =
     word_bytes (mmc1_tick x) @ concat (map word_bytes (mmc1_registers x)) @
     word_bytes (mmc1_register x) @ word_bytes (mmc1_counter x)"

definition MMC3_fields :: "MMC3 \<Rightarrow> u8 list" where
  "MMC3_fields x =
     word_bytes (mmc3_tick x) @ concat (map word_bytes (mmc3_registers x)) @
     word_bytes (mmc3_counter x) @ word_bytes (mmc3_counter_reset_value x) @
     word_bytes (mmc3_register_target x) @
     [bool_byte (mmc3_mode_prg x), bool_byte (mmc3_mode_chr x),
      bool_byte (mmc3_enable_interrupt x), bool_byte (mmc3_should_reload_interrupt x)]"

definition MMC_fields :: "'b MMC \<Rightarrow> u8 list" where
  "MMC_fields x = map bool_byte (latches x) @ concat (map word_bytes (selected_banks x))"

section \<open>The Python wrapper (wrapper.cpp)\<close>

text \<open>
  A \<open>pybind11::array_t<uint8_t>\<close> as far as the wrapper determines it: shape, strides
  (in bytes), the memory its data pointer designates, and the numpy flag word.
\<close>

datatype data_ptr = frame_buffer_ptr | ram_ptr

record array_t =
  shape :: "nat list"
  strides :: "nat list"
  data :: data_ptr
  flags :: u32

text \<open>\<open>pybind11::detail::npy_api::NPY_ARRAY_WRITEABLE_\<close>, a constant of pybind11.\<close>

definition NPY_ARRAY_WRITEABLE :: u32 where
  "NPY_ARRAY_WRITEABLE = 0x0400"

text \<open>
  The class \<open>NES\<close> (\<open>nes.hpp\<close>, \<open>nes.cpp\<close>) is not among the files verified here: its
  state is a type parameter \<open>'nes\<close> and the member functions the wrapper calls are
  parameters. \<open>NES_step\<close> returns the facade's crash report together with the new state;
  \<open>get_frame_buffer\<close> and \<open>get_ram_pointer\<close> give the bytes found at the returned
  pointer. \<open>NES::load\<close> receives a bare \<open>uint8_t*\<close> and no length: \<open>NES_load\<close> takes
  the memory at that pointer, a byte for every offset.
\<close>

record 'nes NES_members =
  NES_size :: "'nes \<Rightarrow> nat"
  NES_step :: "u8 \<Rightarrow> u32 \<Rightarrow> 'nes \<Rightarrow> bool \<times> 'nes"
  NES_save :: "nat \<Rightarrow> 'nes \<Rightarrow> u8 list \<times> 'nes"
  NES_load :: "(nat \<Rightarrow> u8) \<Rightarrow> 'nes \<Rightarrow> 'nes"
  get_frame_buffer :: "'nes \<Rightarrow> u8 list"
  get_ram_pointer :: "'nes \<Rightarrow> u8 list"

record 'nes NesWrapper =
  controller :: u8
  nes :: 'nes
  save_state_size :: nat
  frame :: array_t
  crashed :: bool

text \<open>
  The errors of \<open>load\<close>: the one the spec names, which no function of \<open>wrapper.cpp\<close>
  throws, and the \<open>std::domain_error\<close> ("array is not writeable") that pybind11's
  \<open>mutable_data\<close> throws.
\<close>

datatype error = InvalidSaveStateError | domain_error

text \<open>
  The \<open>pybind11::array_t<uint8_t>\<close> that a client passes to \<open>load\<close>: its elements, the
  bytes that lie in memory after them (which a read through the bare data pointer
  reaches once it goes past the end), and its numpy flag word.
\<close>

record py_array =
  elements :: "u8 list"
  past_end :: "nat \<Rightarrow> u8"
  array_flags :: u32

text \<open>
  \<open>array::writeable\<close> and \<open>array_t::mutable_data\<close> of pybind11 (\<open>numpy.h\<close>):
  \<open>mutable_data\<close> runs \<open>check_writeable\<close>, which throws when the flag
  \<open>NPY_ARRAY_WRITEABLE_\<close> is not set, and otherwise returns the data pointer.
\<close>

definition writeable :: "py_array \<Rightarrow> bool" where
  "writeable a \<longleftrightarrow> array_flags a AND NPY_ARRAY_WRITEABLE = NPY_ARRAY_WRITEABLE"

definition mutable_data :: "py_array \<Rightarrow> error + (nat \<Rightarrow> u8)" where
  "mutable_data a =
     (if writeable a
      then Inr (\<lambda>i. if i < length (elements a) then elements a ! i
                     else past_end a (i - length (elements a)))
      else Inl domain_error)"

text \<open>
  The constructor. \<open>n\<close> is the facade built from the ROM path and \<open>flags0\<close> the flag
  word pybind11 and numpy give the new array; the last statement clears
  \<open>NPY_ARRAY_WRITEABLE_\<close> in it.
\<close>

definition NesWrapper_init :: "'nes NES_members \<Rightarrow> 'nes \<Rightarrow> u32 \<Rightarrow> 'nes NesWrapper" where
  "NesWrapper_init N n flags0 =
     \<lparr>controller = 0x00,
      nes = n,
      save_state_size = NES_size N n,
      frame = \<lparr>shape = [240, 256, 3], strides = [256 * 3, 3, 1], data = frame_buffer_ptr,
               flags = flags0 AND NOT NPY_ARRAY_WRITEABLE\<rparr>,
      crashed = False\<rparr>"

definition NesWrapper_step ::
  "'nes NES_members \<Rightarrow> u32 \<Rightarrow> 'nes NesWrapper \<Rightarrow> array_t \<times> 'nes NesWrapper"
where
  "NesWrapper_step N frames w =
     (let (c, n) = NES_step N (controller w) frames (nes w);
          w = w\<lparr>nes := n, crashed := (crashed w \<or> c)\<rparr>
      in (frame w, w))"

text \<open>
  \<open>save\<close>: the array is newly allocated with \<open>_save_state_size\<close> elements and is
  writeable, so its \<open>mutable_data\<close> does not throw; the facade fills it.
\<close>

definition NesWrapper_save ::
  "'nes NES_members \<Rightarrow> 'nes NesWrapper \<Rightarrow> u8 list \<times> 'nes NesWrapper"
where
  "NesWrapper_save N w =
     (let (buffer, n) = NES_save N (save_state_size w) (nes w)
      in (buffer, w\<lparr>nes := n\<rparr>))"

text \<open>
  \<open>load\<close>: the argument \<open>buffer.mutable_data()\<close> is evaluated first; when it throws,
  neither \<open>NES::load\<close> nor the assignment to \<open>_crashed\<close> is reached.
\<close>

definition NesWrapper_load ::
  "'nes NES_members \<Rightarrow> py_array \<Rightarrow> 'nes NesWrapper \<Rightarrow> error + 'nes NesWrapper"
where
  "NesWrapper_load N buffer w =
     (case mutable_data buffer of
        Inl e \<Rightarrow> Inl e
      | Inr p \<Rightarrow> Inr (w\<lparr>nes := NES_load N p (nes w), crashed := False\<rparr>))"

definition read_all_ram :: "u32 \<Rightarrow> 'nes NesWrapper \<Rightarrow> array_t" where
  "read_all_ram flags0 w =
     \<lparr>shape = [2048], strides = [1], data = ram_ptr, flags = flags0\<rparr>"

definition has_crashed :: "'nes NesWrapper \<Rightarrow> bool" where
  "has_crashed w = crashed w"

text \<open>The bytes a view shows while the facade is in state \<open>n\<close>, and element \<open>i\<close> of a
  one-dimensional view.\<close>

definition view_bytes :: "'nes NES_members \<Rightarrow> 'nes \<Rightarrow> array_t \<Rightarrow> u8 list" where
  "view_bytes N n v =
     (case data v of
        frame_buffer_ptr \<Rightarrow> get_frame_buffer N n
      | ram_ptr \<Rightarrow> get_ram_pointer N n)"

definition view_at :: "'nes NES_members \<Rightarrow> 'nes \<Rightarrow> array_t \<Rightarrow> nat \<Rightarrow> u8" where
  "view_at N n v i = view_bytes N n v ! (i * hd (strides v))"

text \<open>
  The calls a client can make through the functions of \<open>wrapper.cpp\<close>, and the
  \<open>controller\<close> attribute (\<open>def_readwrite\<close>); the handle after a call, and after a
  sequence of calls. A \<open>load\<close> that throws has changed nothing, and the client goes on
  with the handle as it was.
\<close>

datatype call = Step u32 | Save | Load py_array | Read_all_ram | Set_controller u8

fun NesWrapper_call ::
  "'nes NES_members \<Rightarrow> call \<Rightarrow> 'nes NesWrapper \<Rightarrow> 'nes NesWrapper"
where
  "NesWrapper_call N (Step frames) w = snd (NesWrapper_step N frames w)"
| "NesWrapper_call N Save w = snd (NesWrapper_save N w)"
| "NesWrapper_call N (Load buffer) w =
     (case NesWrapper_load N buffer w of
        Inl e \<Rightarrow> w
      | Inr w' \<Rightarrow> w')"
| "NesWrapper_call N Read_all_ram w = w"
| "NesWrapper_call N (Set_controller c) w = w\<lparr>controller := c\<rparr>"

fun NesWrapper_run ::
  "'nes NES_members \<Rightarrow> call list \<Rightarrow> 'nes NesWrapper \<Rightarrow> 'nes NesWrapper"
where
  "NesWrapper_run N [] w = w"
| "NesWrapper_run N (c # cs) w = NesWrapper_run N cs (NesWrapper_call N c w)"

fun is_load :: "call \<Rightarrow> bool" where
  "is_load (Load buffer) = True"
| "is_load c = False"

text \<open>Row-major (C order) strides of an array of the given shape and item size.\<close>

fun row_major_strides :: "nat list \<Rightarrow> nat \<Rightarrow> nat list" where
  "row_major_strides [] itemsize = []"
| "row_major_strides (d # ds) itemsize = (prod_list ds * itemsize) # row_major_strides ds itemsize"

section \<open>The facade's CPU work RAM\<close>

text \<open>
  \<open>nes.hpp\<close>, \<open>nes.cpp\<close> and \<open>wrapper.hpp\<close>, which define the facade, its bus
  functions and the wrapper's \<open>write\<close>, are not among the files verified here.
\<close>

text \<open>
  Modelled from the spec: the state of the facade \<open>NES\<close> (\<open>nes.hpp\<close>), of which only the
  2 KiB of CPU work RAM are spelled out; everything else it owns is \<open>others\<close>.
\<close>

record 'r NES =
  memory_cpu :: "u8 list"
  others :: 'r

text \<open>
  Modelled from the spec: \<open>NES::write_cpu\<close> (\<open>nes.cpp\<close>) on the CPU memory map. The
  addresses \<open>0x0000-0x1FFF\<close> are the 2 KiB of internal RAM, mirrored every \<open>0x800\<close>. What
  a write to an address from \<open>0x2000\<close> on does is the parameter \<open>other\<close>.
\<close>

definition NES_write_cpu ::
  "(u16 \<Rightarrow> u8 \<Rightarrow> 'r NES \<Rightarrow> 'r NES) \<Rightarrow> u16 \<Rightarrow> u8 \<Rightarrow> 'r NES \<Rightarrow> 'r NES"
where
  "NES_write_cpu other address val n =
     (if address < 0x2000
      then n\<lparr>memory_cpu := (memory_cpu n)[unat address mod 0x800 := val]\<rparr>
      else other address val n)"

text \<open>
  Modelled from the spec: \<open>NesWrapper::write\<close> (\<open>wrapper.hpp\<close>), which goes through the
  CPU bus path of the facade.
\<close>

definition NesWrapper_write ::
  "(u16 \<Rightarrow> u8 \<Rightarrow> 'r NES \<Rightarrow> 'r NES) \<Rightarrow> u16 \<Rightarrow> u8 \<Rightarrow> 'r NES NesWrapper \<Rightarrow> 'r NES NesWrapper"
where
  "NesWrapper_write other address val w = w\<lparr>nes := NES_write_cpu other address val (nes w)\<rparr>"

section \<open>Concrete states\<close>

text \<open>
  Small concrete states on which the theorems below are instantiated: a cartridge with
  16 KiB of PRG, 8 KiB of CHR RAM, 8 KiB of CPU work RAM and 2 KiB of PPU work RAM, in
  two states of the same ROM that differ in their bank tables and memory contents.
\<close>

definition example_mapper :: Mapper where
  "example_mapper =
     \<lparr>banks_prg = 0x10, banks_chr = 0x8, banks_cpu_ram = 0x8, banks_ppu_ram = 0x2,
      size_prg = 0x4000, size_chr = 0x2000, size_cpu_ram = 0x2000, size_ppu_ram = 0x800,
      read_only_chr = False,
      memory = replicate 0x8800 0x5A,
      banks_cpu = replicate 0x40 \<lparr>offset = 0x400, read_only = True, mapped = True\<rparr>,
      banks_ppu = replicate 0x10 \<lparr>offset = 0x4000, read_only = False, mapped = True\<rparr>\<rparr>"

definition example_mapper' :: Mapper where
  "example_mapper' =
     example_mapper
       \<lparr>memory := replicate 0x8800 0x00,
        banks_cpu := replicate 0x40 \<lparr>offset = 0x0, read_only = False, mapped = False\<rparr>,
        banks_ppu := replicate 0x10 \<lparr>offset = 0x0, read_only = False, mapped = False\<rparr>\<rparr>"

definition example_mmc1 :: MMC1 where
  "example_mmc1 =
     \<lparr>mmc1_mapper = example_mapper, mmc1_tick = 0x1, mmc1_registers = [0xC, 0x0, 0x1, 0x2],
      mmc1_register = 0x10, mmc1_counter = 0x3\<rparr>"

definition example_mmc3 :: MMC3 where
  "example_mmc3 =
     \<lparr>mmc3_mapper = example_mapper, mmc3_tick = 0x12345, mmc3_registers = [0, 2, 4, 5, 6, 7, 0, 1],
      mmc3_counter = 0x20, mmc3_counter_reset_value = 0x40, mmc3_register_target = 0x6,
      mmc3_mode_prg = True, mmc3_mode_chr = False, mmc3_enable_interrupt = True,
      mmc3_should_reload_interrupt = False\<rparr>"

definition example_mmc :: "Mapper MMC" where
  "example_mmc =
     \<lparr>mmc_mapper = example_mapper, latches = [True, False], selected_banks = [0x1, 0x2, 0x3, 0x4]\<rparr>"

text \<open>
  A stand-in for the base class that records the calls made on it, in order; its
  \<open>Mapper::read_ppu\<close> returns the number of calls made before.
\<close>

datatype base_call =
    Write_cpu u16 u8
  | Read_ppu u16
  | Map_bank_prg u8 u8 u16
  | Map_bank_chr u8 u8 u16
  | Map_bank_cpu_ram u8 u8 u16 bool
  | Set_mirroring_mode MirroringMode

definition logging_base :: "base_call list Mapper_members" where
  "logging_base =
     \<lparr>Mapper_write_cpu = (\<lambda>address val b. b @ [Write_cpu address val]),
      Mapper_read_ppu = (\<lambda>address b. (of_nat (length b), b @ [Read_ppu address])),
      map_bank_prg = (\<lambda>page size address b. b @ [Map_bank_prg page size address]),
      map_bank_chr = (\<lambda>page size address b. b @ [Map_bank_chr page size address]),
      map_bank_cpu_ram =
        (\<lambda>page size address ro b. b @ [Map_bank_cpu_ram page size address ro]),
      set_mirroring_mode = (\<lambda>mode b. b @ [Set_mirroring_mode mode]),
      get_banks_prg = (\<lambda>b. 0x80)\<rparr>"

definition example_mmc2 :: "base_call list MMC" where
  "example_mmc2 = \<lparr>mmc_mapper = [], latches = [False, True], selected_banks = [0x1, 0x2, 0x3, 0x4]\<rparr>"

text \<open>
  A stand-in for the facade: its state is the CPU work RAM alone, a step reports a crash
  when the first RAM byte is \<open>0x02\<close>, a save state is the first four bytes of the RAM,
  and a load reads four bytes through the pointer it is given.
\<close>

definition example_NES :: "unit NES NES_members" where
  "example_NES =
     \<lparr>NES_size = (\<lambda>n. 4),
      NES_step = (\<lambda>c frames n. (hd (memory_cpu n) = 0x02, n)),
      NES_save = (\<lambda>k n. (take k (memory_cpu n), n)),
      NES_load = (\<lambda>p n. n\<lparr>memory_cpu := [p 0, p 1, p 2, p 3] @ drop 4 (memory_cpu n)\<rparr>),
      get_frame_buffer = (\<lambda>n. replicate (240 * 256 * 3) 0x00),
      get_ram_pointer = memory_cpu\<rparr>"

definition example_wrapper :: "unit NES NesWrapper" where
  "example_wrapper =
     NesWrapper_init example_NES \<lparr>memory_cpu = replicate 2048 0x00, others = ()\<rparr> 0x0501"

text \<open>Client buffers of one byte, writeable and read-only, and of four bytes.\<close>

definition example_buffer :: py_array where
  "example_buffer = \<lparr>elements = [0x07], past_end = (\<lambda>i. 0xEE), array_flags = 0x0501\<rparr>"

definition example_readonly :: py_array where
  "example_readonly = \<lparr>elements = [0x07], past_end = (\<lambda>i. 0xEE), array_flags = 0x0101\<rparr>"

definition example_state :: py_array where
  "example_state =
     \<lparr>elements = [0x00, 0x01, 0x02, 0x03], past_end = (\<lambda>i. 0xEE), array_flags = 0x0501\<rparr>"

definition example_crashed :: "unit NES NesWrapper" where
  "example_crashed =
     snd (NesWrapper_step example_NES 1
       (example_wrapper\<lparr>nes := \<lparr>memory_cpu = replicate 2048 0x02, others = ()\<rparr>\<rparr>))"

section \<open>Properties of the dump walk\<close>

lemma length_to_le: "length (to_le n w) = n"
  by (induction n arbitrary: w) auto

lemma of_le_to_le: "of_le (to_le n w) = take_bit (8 * n) w"
proof (induction n arbitrary: w)
  case 0
  show ?case by simp
next
  case (Suc n)
  show ?case
    apply (simp add: Suc)
    apply (rule bit_eqI)
    apply (simp add: bit_simps)
    apply (auto)
    done
qed

lemma of_le_to_le_sizeof:
  fixes v :: "'a::len word"
  assumes "8 dvd LENGTH('a)"
  shows "of_le (to_le (sizeof_word v) v) = v"
proof -
  have "8 * (LENGTH('a) div 8) = LENGTH('a)"
    using assms by simp
  then show ?thesis
    by (simp add: of_le_to_le sizeof_word_def)
qed

lemma dump_word_WRITE:
  "dump_word WRITE buffer v = Some (buffer @ to_le (sizeof_word v) v, v)"
  by (simp add: dump_word_def)

lemma dump_word_READ:
  fixes v v0 :: "'a::len word"
  assumes "8 dvd LENGTH('a)"
  shows "dump_word READ (to_le (sizeof_word v) v @ rest) v0 = Some (rest, v)"
proof -
  have s: "sizeof_word v0 = sizeof_word v"
    by (simp add: sizeof_word_def)
  show ?thesis
    using of_le_to_le_sizeof [OF assms, of v]
    by (simp add: dump_word_def s length_to_le)
qed

lemma dump_bool_WRITE: "dump_bool WRITE buffer v = Some (buffer @ [bool_byte v], v)"
  by (simp add: dump_bool_def)

lemma dump_bool_READ: "dump_bool READ (bool_byte v # rest) v0 = Some (rest, v)"
  by (simp add: dump_bool_def bool_byte_def)

lemma dump_array_WRITE:
  assumes "\<And>buffer x. f buffer x = Some (buffer @ enc x, x)"
  shows "dump_array f buffer xs = Some (buffer @ concat (map enc xs), xs)"
  by (induction xs arbitrary: buffer) (simp_all add: assms)

lemma dump_array_READ:
  assumes "\<And>rest x x0. g (enc x @ rest) x0 = Some (rest, x)"
    and "length xs0 = length xs"
  shows "dump_array g (concat (map enc xs) @ rest) xs0 = Some (rest, xs)"
  using assms(2)
proof (induction xs arbitrary: xs0 rest)
  case Nil
  then show ?case by simp
next
  case (Cons x xs)
  then obtain y ys where xs0: "xs0 = y # ys" and len: "length ys = length xs"
    by (cases xs0) auto
  show ?case
    by (simp add: xs0 assms(1) Cons.IH [OF len])
qed

lemma sizeof_size_t: "sizeof_word (v :: size_t) = 8"
  by (simp add: sizeof_word_def)

lemma MemoryBank_dump_WRITE:
  "MemoryBank_dump WRITE buffer b = Some (buffer @ bank_bytes b, b)"
  by (simp add: MemoryBank_dump_def dump_word_WRITE dump_bool_WRITE bank_bytes_def sizeof_size_t)

lemma MemoryBank_dump_READ:
  "MemoryBank_dump READ (bank_bytes b @ rest) b0 = Some (rest, b)"
proof -
  have w: "dump_word READ (to_le 8 (offset b) @ r) (offset b0) = Some (r, offset b)" for r
    using dump_word_READ [of "offset b" r "offset b0"] by (simp add: sizeof_size_t)
  show ?thesis
    by (simp add: MemoryBank_dump_def bank_bytes_def w dump_bool_READ)
qed

lemma take_drop_step:
  "k < n \<Longrightarrow> n \<le> length xs \<Longrightarrow>
   take (n - k) (drop k xs) = xs ! k # take (n - (k + 1)) (drop (k + 1) xs)"
proof -
  assume a: "k < n" "n \<le> length xs"
  then have "drop k xs = xs ! k # drop (Suc k) xs"
    by (simp add: Cons_nth_drop_Suc)
  moreover have "n - k = Suc (n - (k + 1))"
    using a by simp
  ultimately show ?thesis by simp
qed

lemma dump_banks_WRITE:
  "n \<le> length banks \<Longrightarrow>
   dump_banks WRITE k n buffer banks =
     Some (buffer @ concat (map bank_bytes (take (n - k) (drop k banks))), banks)"
proof (induction "n - k" arbitrary: k buffer)
  case 0
  then show ?case by (simp add: dump_banks.simps)
next
  case (Suc d)
  then have lt: "k < n" by simp
  have ih: "dump_banks WRITE (k + 1) n (buffer @ bank_bytes (banks ! k)) banks =
      Some ((buffer @ bank_bytes (banks ! k)) @
        concat (map bank_bytes (take (n - (k + 1)) (drop (k + 1) banks))), banks)"
    using Suc by (intro Suc.hyps(1)) simp_all
  show ?case
    using ih
    apply (subst dump_banks.simps)
    apply (simp only: take_drop_step [OF lt Suc.prems])
    apply (simp add: lt MemoryBank_dump_WRITE)
    done
qed

lemma dump_banks_READ:
  "length src = n \<Longrightarrow> length banks = n \<Longrightarrow> k \<le> n \<Longrightarrow>
   dump_banks READ k n (concat (map bank_bytes (drop k src)) @ rest) banks =
     Some (rest, take k banks @ drop k src)"
proof (induction "n - k" arbitrary: k banks)
  case 0
  then show ?case by (simp add: dump_banks.simps)
next
  case (Suc d)
  then have lt: "k < n" by simp
  have dr: "drop k src = src ! k # drop (k + 1) src"
    using lt Suc.prems by (simp add: Cons_nth_drop_Suc)
  have ih: "dump_banks READ (k + 1) n (concat (map bank_bytes (drop (k + 1) src)) @ rest)
        (banks[k := src ! k]) =
      Some (rest, take (k + 1) (banks[k := src ! k]) @ drop (k + 1) src)"
    using Suc by (intro Suc.hyps(1)) simp_all
  have tk: "take (k + 1) (banks[k := src ! k]) = take k banks @ [src ! k]"
    using lt Suc.prems by (simp add: take_Suc_conv_app_nth)
  show ?case
    using ih tk
    apply (subst dump_banks.simps)
    apply (simp only: dr)
    apply (simp add: lt MemoryBank_dump_READ)
    done
qed

lemma length_region: "off + n \<le> length mem \<Longrightarrow> length (region mem off n) = n"
  by (simp add: region_def)

lemma length_set_region:
  "off + length bs \<le> length mem \<Longrightarrow> length (set_region mem off bs) = length mem"
  by (simp add: set_region_def)

lemma region_set_region_same:
  "off + length bs \<le> length mem \<Longrightarrow> n = length bs \<Longrightarrow> region (set_region mem off bs) off n = bs"
  by (simp add: region_def set_region_def)

lemma region_set_region_below:
  "off' + n' \<le> off \<Longrightarrow> off + length bs \<le> length mem \<Longrightarrow>
   region (set_region mem off bs) off' n' = region mem off' n'"
proof -
  assume a: "off' + n' \<le> off" "off + length bs \<le> length mem"
  have "take n' (drop off' (take off mem)) = take n' (drop off' mem)"
    using a by (simp add: drop_take min_def)
  then show ?thesis
    using a by (simp add: region_def set_region_def)
qed

lemma dump_region_WRITE:
  "dump_region WRITE buffer mem off n = Some (buffer @ region mem off n, mem)"
  by (simp add: dump_region_def)

lemma dump_region_READ:
  "length bs = n \<Longrightarrow> dump_region READ (bs @ rest) mem off n = Some (rest, set_region mem off bs)"
  by (simp add: dump_region_def)

lemma dump_region_READ_region:
  "off + n \<le> length src \<Longrightarrow>
   dump_region READ (region src off n @ rest) mem off n =
     Some (rest, set_region mem off (region src off n))"
  by (simp add: dump_region_READ length_region)

lemma Mapper_dump_WRITE:
  "Mapper_wf m \<Longrightarrow> Mapper_dump WRITE buffer m = Some (buffer @ mapper_segment m [], m)"
  by (simp add: Mapper_dump_def Mapper_wf_def mapper_segment_def dump_banks_WRITE
      dump_region_WRITE chr_bytes_def cpu_ram_bytes_def ppu_ram_bytes_def)

lemma mapper_segment_append: "mapper_segment m fs = mapper_segment m [] @ fs"
  by (simp add: mapper_segment_def)

lemma Mapper_dump_READ:
  assumes wf: "Mapper_wf m" and wf0: "Mapper_wf m0" and rom: "same_rom m m0"
  shows "\<exists>m1. Mapper_dump READ (mapper_segment m [] @ rest) m0 = Some (rest, m1) \<and>
           Mapper_wf m1 \<and> same_rom m m1 \<and> mapper_segment m1 [] = mapper_segment m []"
proof -
  define P C R Q where "P = size_prg m" and "C = size_chr m"
    and "R = size_cpu_ram m" and "Q = size_ppu_ram m"
  define mem1 where
    "mem1 = (if \<not> read_only_chr m then set_region (memory m0) P (region (memory m) P C)
             else memory m0)"
  define mem2 where
    "mem2 = (if R \<noteq> 0 then set_region mem1 (P + C) (region (memory m) (P + C) R) else mem1)"
  define mem3 where
    "mem3 = (if Q \<noteq> 0 then set_region mem2 (P + C + R) (region (memory m) (P + C + R) Q)
             else mem2)"
  define m1 where "m1 = m0\<lparr>banks_cpu := banks_cpu m, banks_ppu := banks_ppu m, memory := mem3\<rparr>"
  have len: "length (memory m) = P + C + R + Q" "length (memory m0) = P + C + R + Q"
    and lb: "length (banks_cpu m) = 64" "length (banks_ppu m) = 16"
      "length (banks_cpu m0) = 64" "length (banks_ppu m0) = 16"
    and cfg: "size_prg m0 = P" "size_chr m0 = C" "size_cpu_ram m0 = R" "size_ppu_ram m0 = Q"
      "read_only_chr m0 = read_only_chr m"
    using wf wf0 rom by (simp_all add: Mapper_wf_def same_rom_def P_def C_def R_def Q_def)
  have lr: "length (region (memory m) P C) = C" "length (region (memory m) (P + C) R) = R"
    "length (region (memory m) (P + C + R) Q) = Q"
    using len by (simp_all add: length_region)
  have l1: "length mem1 = P + C + R + Q"
    using len lr by (simp add: mem1_def length_set_region)
  have l2: "length mem2 = P + C + R + Q"
    using l1 lr by (simp add: mem2_def length_set_region)
  have l3: "length mem3 = P + C + R + Q"
    using l2 lr by (simp add: mem3_def length_set_region)
  have bc: "dump_banks READ 0 64 (concat (map bank_bytes (banks_cpu m)) @ r) (banks_cpu m0) =
      Some (r, banks_cpu m)" for r
    using dump_banks_READ [of "banks_cpu m" 64 "banks_cpu m0" 0 r] lb by simp
  have bp: "dump_banks READ 0 16 (concat (map bank_bytes (banks_ppu m)) @ r) (banks_ppu m0) =
      Some (r, banks_ppu m)" for r
    using dump_banks_READ [of "banks_ppu m" 16 "banks_ppu m0" 0 r] lb by simp
  have rd: "Mapper_dump READ (mapper_segment m [] @ rest) m0 = Some (rest, m1)"
    using lb
    by (simp add: Mapper_dump_def mapper_segment_def bc bp cfg dump_region_READ_region len
        chr_bytes_def cpu_ram_bytes_def ppu_ram_bytes_def m1_def mem1_def mem2_def mem3_def
        P_def [symmetric] C_def [symmetric] R_def [symmetric] Q_def [symmetric])
  have wf1: "Mapper_wf m1"
    using lb l3 cfg by (simp add: Mapper_wf_def m1_def)
  have rom1: "same_rom m m1"
    using cfg by (simp add: same_rom_def m1_def P_def C_def R_def Q_def)
  have r3: "region mem3 (P + C + R) Q = region (memory m) (P + C + R) Q" if "Q \<noteq> 0"
    using that l2 lr by (simp add: mem3_def region_set_region_same)
  have r2a: "region mem2 (P + C) R = region (memory m) (P + C) R" if "R \<noteq> 0"
    using that l1 lr by (simp add: mem2_def region_set_region_same)
  have r2: "region mem3 (P + C) R = region (memory m) (P + C) R" if "R \<noteq> 0"
    using that l2 lr r2a by (simp add: mem3_def region_set_region_below)
  have r1a: "region mem1 P C = region (memory m) P C" if "\<not> read_only_chr m"
    using that len lr by (simp add: mem1_def region_set_region_same)
  have r1b: "region mem2 P C = region (memory m) P C" if "\<not> read_only_chr m"
    using that l1 lr r1a by (simp add: mem2_def region_set_region_below)
  have r1: "region mem3 P C = region (memory m) P C" if "\<not> read_only_chr m"
    using that l2 lr r1b by (simp add: mem3_def region_set_region_below)
  have seg: "mapper_segment m1 [] = mapper_segment m []"
    using r1 r2 r3 cfg
    by (simp add: mapper_segment_def chr_bytes_def cpu_ram_bytes_def ppu_ram_bytes_def m1_def
        P_def [symmetric] C_def [symmetric] R_def [symmetric] Q_def [symmetric])
  show ?thesis
    using rd wf1 rom1 seg by blast
qed

lemma mapper_segment_Nil_append: "mapper_segment m [] @ fs = mapper_segment m fs"
  by (simp add: mapper_segment_def)

lemma dump_word_WRITE': "dump_word WRITE buffer v = Some (buffer @ word_bytes v, v)"
  by (simp add: dump_word_WRITE word_bytes_def)

lemma dump_word_READ':
  fixes v v0 :: "'a::len word"
  shows "8 dvd LENGTH('a) \<Longrightarrow> dump_word READ (word_bytes v @ rest) v0 = Some (rest, v)"
  by (simp add: dump_word_READ word_bytes_def)

lemma dump_words_WRITE:
  "dump_array (dump_word WRITE) buffer xs = Some (buffer @ concat (map word_bytes xs), xs)"
  by (rule dump_array_WRITE) (rule dump_word_WRITE')

lemma dump_words_READ:
  fixes xs xs0 :: "'a::len word list"
  shows "8 dvd LENGTH('a) \<Longrightarrow> length xs0 = length xs \<Longrightarrow>
    dump_array (dump_word READ) (concat (map word_bytes xs) @ rest) xs0 = Some (rest, xs)"
  by (rule dump_array_READ) (simp_all add: dump_word_READ')

lemma dump_bools_WRITE:
  "dump_array (dump_bool WRITE) buffer xs = Some (buffer @ map bool_byte xs, xs)"
  using dump_array_WRITE [of "dump_bool WRITE" "\<lambda>b. [bool_byte b]" buffer xs]
  by (simp add: dump_bool_WRITE concat_map_singleton)

lemma dump_bools_READ:
  "length xs0 = length xs \<Longrightarrow>
    dump_array (dump_bool READ) (map bool_byte xs @ rest) xs0 = Some (rest, xs)"
  using dump_array_READ [of "dump_bool READ" "\<lambda>b. [bool_byte b]" xs0 xs rest]
  by (simp add: dump_bool_READ concat_map_singleton)

lemma MMC_dump_WRITE:
  "Mapper_wf (mmc_mapper x) \<Longrightarrow>
   MMC_dump WRITE buffer x = Some (buffer @ mapper_segment (mmc_mapper x) (MMC_fields x), x)"
  by (simp add: MMC_dump_def Mapper_dump_WRITE dump_bools_WRITE dump_words_WRITE
      mapper_segment_Nil_append MMC_fields_def)

lemma MMC1_dump_WRITE:
  "Mapper_wf (mmc1_mapper x) \<Longrightarrow>
   MMC1_dump WRITE buffer x = Some (buffer @ mapper_segment (mmc1_mapper x) (MMC1_fields x), x)"
  by (simp add: MMC1_dump_def Mapper_dump_WRITE dump_word_WRITE' dump_words_WRITE
      mapper_segment_Nil_append MMC1_fields_def)

lemma MMC3_dump_WRITE:
  "Mapper_wf (mmc3_mapper x) \<Longrightarrow>
   MMC3_dump WRITE buffer x = Some (buffer @ mapper_segment (mmc3_mapper x) (MMC3_fields x), x)"
  by (simp add: MMC3_dump_def Mapper_dump_WRITE dump_word_WRITE' dump_words_WRITE
      dump_bool_WRITE mapper_segment_Nil_append MMC3_fields_def)

lemma mapper_segment_cong:
  "mapper_segment m1 [] = mapper_segment m [] \<Longrightarrow> mapper_segment m1 fs = mapper_segment m fs"
  by (metis mapper_segment_append)

lemma MMC_dump_READ:
  assumes "Mapper_wf (mmc_mapper x)" "MMC_wf x" "Mapper_wf (mmc_mapper x0)" "MMC_wf x0"
    and "same_rom (mmc_mapper x) (mmc_mapper x0)"
  shows "\<exists>x1. MMC_dump READ (mapper_segment (mmc_mapper x) (MMC_fields x) @ rest) x0 = Some (rest, x1) \<and>
           Mapper_wf (mmc_mapper x1) \<and>
           mapper_segment (mmc_mapper x1) (MMC_fields x1) = mapper_segment (mmc_mapper x) (MMC_fields x)"
proof -
  obtain m1 where
    rd: "Mapper_dump READ (mapper_segment (mmc_mapper x) [] @ MMC_fields x @ rest) (mmc_mapper x0) =
          Some (MMC_fields x @ rest, m1)"
    and wf1: "Mapper_wf m1"
    and seg: "mapper_segment m1 [] = mapper_segment (mmc_mapper x) []"
    using Mapper_dump_READ [OF assms(1) assms(3) assms(5)] by blast
  define x1 where "x1 = x0\<lparr>mmc_mapper := m1, latches := latches x, selected_banks := selected_banks x\<rparr>"
  have len: "length (latches x0) = length (latches x)"
    "length (selected_banks x0) = length (selected_banks x)"
    using assms(2,4) by (simp_all add: MMC_wf_def)
  have "MMC_dump READ (mapper_segment (mmc_mapper x) [] @ MMC_fields x @ rest) x0 = Some (rest, x1)"
    using rd
    by (simp add: MMC_dump_def MMC_fields_def dump_bools_READ dump_words_READ len x1_def)
  moreover have "MMC_fields x1 = MMC_fields x"
    by (simp add: x1_def MMC_fields_def)
  moreover have "mmc_mapper x1 = m1"
    by (simp add: x1_def)
  ultimately show ?thesis
    using wf1 mapper_segment_cong [OF seg] mapper_segment_append [of "mmc_mapper x" "MMC_fields x"]
    by auto
qed

lemma MMC1_dump_READ:
  assumes "MMC1_wf x" "MMC1_wf x0" and "same_rom (mmc1_mapper x) (mmc1_mapper x0)"
  shows "\<exists>x1. MMC1_dump READ (mapper_segment (mmc1_mapper x) (MMC1_fields x) @ rest) x0 = Some (rest, x1) \<and>
           Mapper_wf (mmc1_mapper x1) \<and>
           mapper_segment (mmc1_mapper x1) (MMC1_fields x1) = mapper_segment (mmc1_mapper x) (MMC1_fields x)"
proof -
  have wf: "Mapper_wf (mmc1_mapper x)" "Mapper_wf (mmc1_mapper x0)"
    and len: "length (mmc1_registers x0) = length (mmc1_registers x)"
    using assms(1,2) by (simp_all add: MMC1_wf_def)
  obtain m1 where
    rd: "Mapper_dump READ (mapper_segment (mmc1_mapper x) [] @ MMC1_fields x @ rest) (mmc1_mapper x0) =
          Some (MMC1_fields x @ rest, m1)"
    and wf1: "Mapper_wf m1"
    and seg: "mapper_segment m1 [] = mapper_segment (mmc1_mapper x) []"
    using Mapper_dump_READ [OF wf assms(3)] by blast
  define x1 where "x1 = x0\<lparr>mmc1_mapper := m1, mmc1_tick := mmc1_tick x,
    mmc1_registers := mmc1_registers x, mmc1_register := mmc1_register x,
    mmc1_counter := mmc1_counter x\<rparr>"
  have "MMC1_dump READ (mapper_segment (mmc1_mapper x) [] @ MMC1_fields x @ rest) x0 = Some (rest, x1)"
    using rd
    by (simp add: MMC1_dump_def MMC1_fields_def dump_word_READ' dump_words_READ len x1_def)
  moreover have "MMC1_fields x1 = MMC1_fields x"
    by (simp add: x1_def MMC1_fields_def)
  moreover have "mmc1_mapper x1 = m1"
    by (simp add: x1_def)
  ultimately show ?thesis
    using wf1 mapper_segment_cong [OF seg] mapper_segment_append [of "mmc1_mapper x" "MMC1_fields x"]
    by auto
qed

lemma MMC3_dump_READ:
  assumes "MMC3_wf x" "MMC3_wf x0" and "same_rom (mmc3_mapper x) (mmc3_mapper x0)"
  shows "\<exists>x1. MMC3_dump READ (mapper_segment (mmc3_mapper x) (MMC3_fields x) @ rest) x0 = Some (rest, x1) \<and>
           Mapper_wf (mmc3_mapper x1) \<and>
           mapper_segment (mmc3_mapper x1) (MMC3_fields x1) = mapper_segment (mmc3_mapper x) (MMC3_fields x)"
proof -
  have wf: "Mapper_wf (mmc3_mapper x)" "Mapper_wf (mmc3_mapper x0)"
    and len: "length (mmc3_registers x0) = length (mmc3_registers x)"
    using assms(1,2) by (simp_all add: MMC3_wf_def)
  obtain m1 where
    rd: "Mapper_dump READ (mapper_segment (mmc3_mapper x) [] @ MMC3_fields x @ rest) (mmc3_mapper x0) =
          Some (MMC3_fields x @ rest, m1)"
    and wf1: "Mapper_wf m1"
    and seg: "mapper_segment m1 [] = mapper_segment (mmc3_mapper x) []"
    using Mapper_dump_READ [OF wf assms(3)] by blast
  define x1 where "x1 = x0\<lparr>mmc3_mapper := m1, mmc3_tick := mmc3_tick x,
    mmc3_registers := mmc3_registers x, mmc3_counter := mmc3_counter x,
    mmc3_counter_reset_value := mmc3_counter_reset_value x,
    mmc3_register_target := mmc3_register_target x,
    mmc3_mode_prg := mmc3_mode_prg x, mmc3_mode_chr := mmc3_mode_chr x,
    mmc3_enable_interrupt := mmc3_enable_interrupt x,
    mmc3_should_reload_interrupt := mmc3_should_reload_interrupt x\<rparr>"
  have "MMC3_dump READ (mapper_segment (mmc3_mapper x) [] @ MMC3_fields x @ rest) x0 = Some (rest, x1)"
    using rd
    by (simp add: MMC3_dump_def MMC3_fields_def dump_word_READ' dump_words_READ dump_bool_READ
        len x1_def)
  moreover have "MMC3_fields x1 = MMC3_fields x"
    by (simp add: x1_def MMC3_fields_def)
  moreover have "mmc3_mapper x1 = m1"
    by (simp add: x1_def)
  ultimately show ?thesis
    using wf1 mapper_segment_cong [OF seg] mapper_segment_append [of "mmc3_mapper x" "MMC3_fields x"]
    by auto
qed

lemma example_wf:
  "Mapper_wf example_mapper" "Mapper_wf example_mapper'" "same_rom example_mapper example_mapper'"
  "MMC1_wf example_mmc1" "MMC3_wf example_mmc3" "MMC_wf example_mmc"
  by (simp_all add: Mapper_wf_def same_rom_def MMC1_wf_def MMC3_wf_def MMC_wf_def
      example_mapper_def example_mapper'_def example_mmc1_def example_mmc3_def example_mmc_def)

section \<open>The mapper's walks and the save state\<close>

text \<open>
  What each walk writes. In \<open>WRITE\<close> mode \<open>Mapper::dump\<close>, \<open>MMC1::dump\<close>, \<open>MMC3::dump\<close>
  and \<open>MMC::dump\<close>, each run on an object of its own class, append exactly
  \<open>mapper_segment\<close> to the cursor and leave the state as it is: the 64 CPU bank entries,
  the 16 PPU bank entries, the CHR region (when CHR is RAM), the CPU work RAM, the PPU
  work RAM, and for the three derived classes their own members after that.

  \<open>dump\<close> is a member template, hence not virtual, and each derived \<open>dump\<close> hides the
  base one: run on the base object of an MMC2 mapper, \<open>Mapper::dump\<close> writes the segment
  without the latches and the bank registers. Which of the walks the facade runs on the
  \<open>std::unique_ptr<Mapper>\<close> that \<open>load_mapper\<close> returns is decided in \<open>nes.hpp\<close> and
  \<open>nes.cpp\<close>.
\<close>

lemma dump_WRITE_segment:
  "(Mapper_wf m \<longrightarrow>
      Mapper_dump WRITE buffer m = Some (buffer @ mapper_segment m [], m)) \<and>
   (Mapper_wf (mmc1_mapper a) \<longrightarrow>
      MMC1_dump WRITE buffer a = Some (buffer @ mapper_segment (mmc1_mapper a) (MMC1_fields a), a)) \<and>
   (Mapper_wf (mmc3_mapper c) \<longrightarrow>
      MMC3_dump WRITE buffer c = Some (buffer @ mapper_segment (mmc3_mapper c) (MMC3_fields c), c)) \<and>
   (Mapper_wf (mmc_mapper x) \<longrightarrow>
      MMC_dump WRITE buffer x = Some (buffer @ mapper_segment (mmc_mapper x) (MMC_fields x), x))"
proof (intro conjI impI)
  assume "Mapper_wf m"
  then show "Mapper_dump WRITE buffer m = Some (buffer @ mapper_segment m [], m)"
    by (rule Mapper_dump_WRITE)
next
  assume "Mapper_wf (mmc1_mapper a)"
  then show "MMC1_dump WRITE buffer a =
      Some (buffer @ mapper_segment (mmc1_mapper a) (MMC1_fields a), a)"
    by (rule MMC1_dump_WRITE)
next
  assume "Mapper_wf (mmc3_mapper c)"
  then show "MMC3_dump WRITE buffer c =
      Some (buffer @ mapper_segment (mmc3_mapper c) (MMC3_fields c), c)"
    by (rule MMC3_dump_WRITE)
next
  assume "Mapper_wf (mmc_mapper x)"
  then show "MMC_dump WRITE buffer x =
      Some (buffer @ mapper_segment (mmc_mapper x) (MMC_fields x), x)"
    by (rule MMC_dump_WRITE)
qed

lemma dump_WRITE_segment_example:
  "Mapper_wf example_mapper \<and>
   Mapper_dump WRITE [] example_mapper = Some (mapper_segment example_mapper [], example_mapper) \<and>
   MMC1_dump WRITE [] example_mmc1 =
     Some (mapper_segment example_mapper (MMC1_fields example_mmc1), example_mmc1) \<and>
   MMC3_dump WRITE [] example_mmc3 =
     Some (mapper_segment example_mapper (MMC3_fields example_mmc3), example_mmc3) \<and>
   MMC_dump WRITE [] example_mmc =
     Some (mapper_segment example_mapper (MMC_fields example_mmc), example_mmc) \<and>
   MMC_fields example_mmc = [1, 0, 1, 2, 3, 4] \<and>
   length (mapper_segment example_mapper []) = 64 * 10 + 16 * 10 + 0x2000 + 0x2000 + 0x800"
proof -
  have m: "mmc1_mapper example_mmc1 = example_mapper" "mmc3_mapper example_mmc3 = example_mapper"
    "mmc_mapper example_mmc = example_mapper"
    by (simp_all add: example_mmc1_def example_mmc3_def example_mmc_def)
  have f: "MMC_fields example_mmc = [1, 0, 1, 2, 3, 4]"
    by (simp add: MMC_fields_def example_mmc_def bool_byte_def word_bytes_def sizeof_word_def)
  have l: "length (mapper_segment example_mapper []) = 64 * 10 + 16 * 10 + 0x2000 + 0x2000 + 0x800"
    by (simp add: mapper_segment_def example_mapper_def chr_bytes_def cpu_ram_bytes_def
        ppu_ram_bytes_def region_def bank_bytes_def length_to_le length_concat sum_list_replicate)
  show ?thesis
    using dump_WRITE_segment [of example_mapper "[]" example_mmc1 example_mmc3 example_mmc]
      example_wf(1) m f l
    by simp
qed

text \<open>
  C1. Save, then load, then save again gives a byte-identical buffer: running the walk
  in \<open>WRITE\<close> mode on a state, then in \<open>READ\<close> mode from the bytes written (into any
  state of the same ROM), consumes the buffer exactly, and a second \<open>WRITE\<close> from the
  loaded state produces the same bytes. This holds for the base walk and for each
  variant that extends it.
\<close>

theorem dump_save_load_save:
  "(Mapper_wf m \<and> Mapper_wf m0 \<and> same_rom m m0 \<longrightarrow>
      (\<exists>bytes m1. Mapper_dump WRITE [] m = Some (bytes, m) \<and>
         Mapper_dump READ bytes m0 = Some ([], m1) \<and>
         Mapper_dump WRITE [] m1 = Some (bytes, m1))) \<and>
   (MMC1_wf a \<and> MMC1_wf a0 \<and> same_rom (mmc1_mapper a) (mmc1_mapper a0) \<longrightarrow>
      (\<exists>bytes a1. MMC1_dump WRITE [] a = Some (bytes, a) \<and>
         MMC1_dump READ bytes a0 = Some ([], a1) \<and>
         MMC1_dump WRITE [] a1 = Some (bytes, a1))) \<and>
   (MMC3_wf c \<and> MMC3_wf c0 \<and> same_rom (mmc3_mapper c) (mmc3_mapper c0) \<longrightarrow>
      (\<exists>bytes c1. MMC3_dump WRITE [] c = Some (bytes, c) \<and>
         MMC3_dump READ bytes c0 = Some ([], c1) \<and>
         MMC3_dump WRITE [] c1 = Some (bytes, c1))) \<and>
   (Mapper_wf (mmc_mapper x) \<and> MMC_wf x \<and> Mapper_wf (mmc_mapper x0) \<and> MMC_wf x0 \<and>
    same_rom (mmc_mapper x) (mmc_mapper x0) \<longrightarrow>
      (\<exists>bytes x1. MMC_dump WRITE [] x = Some (bytes, x) \<and>
         MMC_dump READ bytes x0 = Some ([], x1) \<and>
         MMC_dump WRITE [] x1 = Some (bytes, x1)))"
proof (intro conjI impI)
  assume a: "Mapper_wf m \<and> Mapper_wf m0 \<and> same_rom m m0"
  then obtain m1 where "Mapper_dump READ (mapper_segment m [] @ []) m0 = Some ([], m1)"
    "Mapper_wf m1" "mapper_segment m1 [] = mapper_segment m []"
    using Mapper_dump_READ [of m m0 "[]"] by blast
  then show "\<exists>bytes m1. Mapper_dump WRITE [] m = Some (bytes, m) \<and>
         Mapper_dump READ bytes m0 = Some ([], m1) \<and>
         Mapper_dump WRITE [] m1 = Some (bytes, m1)"
    using a by (simp add: Mapper_dump_WRITE)
next
  assume a: "MMC1_wf a \<and> MMC1_wf a0 \<and> same_rom (mmc1_mapper a) (mmc1_mapper a0)"
  then obtain a1 where
    "MMC1_dump READ (mapper_segment (mmc1_mapper a) (MMC1_fields a) @ []) a0 = Some ([], a1)"
    "Mapper_wf (mmc1_mapper a1)"
    "mapper_segment (mmc1_mapper a1) (MMC1_fields a1) = mapper_segment (mmc1_mapper a) (MMC1_fields a)"
    using MMC1_dump_READ [of a a0 "[]"] by blast
  then show "\<exists>bytes a1. MMC1_dump WRITE [] a = Some (bytes, a) \<and>
         MMC1_dump READ bytes a0 = Some ([], a1) \<and>
         MMC1_dump WRITE [] a1 = Some (bytes, a1)"
    using a by (simp add: MMC1_dump_WRITE MMC1_wf_def)
next
  assume a: "MMC3_wf c \<and> MMC3_wf c0 \<and> same_rom (mmc3_mapper c) (mmc3_mapper c0)"
  then obtain c1 where
    "MMC3_dump READ (mapper_segment (mmc3_mapper c) (MMC3_fields c) @ []) c0 = Some ([], c1)"
    "Mapper_wf (mmc3_mapper c1)"
    "mapper_segment (mmc3_mapper c1) (MMC3_fields c1) = mapper_segment (mmc3_mapper c) (MMC3_fields c)"
    using MMC3_dump_READ [of c c0 "[]"] by blast
  then show "\<exists>bytes c1. MMC3_dump WRITE [] c = Some (bytes, c) \<and>
         MMC3_dump READ bytes c0 = Some ([], c1) \<and>
         MMC3_dump WRITE [] c1 = Some (bytes, c1)"
    using a by (simp add: MMC3_dump_WRITE MMC3_wf_def)
next
  assume a: "Mapper_wf (mmc_mapper x) \<and> MMC_wf x \<and> Mapper_wf (mmc_mapper x0) \<and> MMC_wf x0 \<and>
    same_rom (mmc_mapper x) (mmc_mapper x0)"
  then obtain x1 where
    "MMC_dump READ (mapper_segment (mmc_mapper x) (MMC_fields x) @ []) x0 = Some ([], x1)"
    "Mapper_wf (mmc_mapper x1)"
    "mapper_segment (mmc_mapper x1) (MMC_fields x1) = mapper_segment (mmc_mapper x) (MMC_fields x)"
    using MMC_dump_READ [of x x0 "[]"] by blast
  then show "\<exists>bytes x1. MMC_dump WRITE [] x = Some (bytes, x) \<and>
         MMC_dump READ bytes x0 = Some ([], x1) \<and>
         MMC_dump WRITE [] x1 = Some (bytes, x1)"
    using a by (simp add: MMC_dump_WRITE)
qed

theorem dump_save_load_save_witness:
  "Mapper_wf example_mapper \<and> Mapper_wf example_mapper' \<and> same_rom example_mapper example_mapper' \<and>
   (\<exists>bytes m1. Mapper_dump WRITE [] example_mapper = Some (bytes, example_mapper) \<and>
      Mapper_dump READ bytes example_mapper' = Some ([], m1) \<and>
      Mapper_dump WRITE [] m1 = Some (bytes, m1)) \<and>
   MMC1_wf example_mmc1 \<and>
   (\<exists>bytes a1. MMC1_dump WRITE [] example_mmc1 = Some (bytes, example_mmc1) \<and>
      MMC1_dump READ bytes (example_mmc1\<lparr>mmc1_mapper := example_mapper', mmc1_tick := 0\<rparr>) = Some ([], a1) \<and>
      MMC1_dump WRITE [] a1 = Some (bytes, a1)) \<and>
   MMC3_wf example_mmc3 \<and>
   (\<exists>bytes c1. MMC3_dump WRITE [] example_mmc3 = Some (bytes, example_mmc3) \<and>
      MMC3_dump READ bytes (example_mmc3\<lparr>mmc3_mapper := example_mapper', mmc3_mode_prg := False\<rparr>) = Some ([], c1) \<and>
      MMC3_dump WRITE [] c1 = Some (bytes, c1)) \<and>
   MMC_wf example_mmc \<and>
   (\<exists>bytes x1. MMC_dump WRITE [] example_mmc = Some (bytes, example_mmc) \<and>
      MMC_dump READ bytes (example_mmc\<lparr>mmc_mapper := example_mapper', latches := [False, True]\<rparr>) = Some ([], x1) \<and>
      MMC_dump WRITE [] x1 = Some (bytes, x1))"
proof -
  have m: "mmc1_mapper example_mmc1 = example_mapper" "mmc3_mapper example_mmc3 = example_mapper"
    "mmc_mapper example_mmc = example_mapper"
    by (simp_all add: example_mmc1_def example_mmc3_def example_mmc_def)
  have w: "MMC1_wf (example_mmc1\<lparr>mmc1_mapper := example_mapper', mmc1_tick := 0\<rparr>)"
    "MMC3_wf (example_mmc3\<lparr>mmc3_mapper := example_mapper', mmc3_mode_prg := False\<rparr>)"
    "MMC_wf (example_mmc\<lparr>mmc_mapper := example_mapper', latches := [False, True]\<rparr>)"
    using example_wf by (simp_all add: MMC1_wf_def MMC3_wf_def MMC_wf_def)
  show ?thesis
    using dump_save_load_save [of example_mapper example_mapper'
        example_mmc1 "example_mmc1\<lparr>mmc1_mapper := example_mapper', mmc1_tick := 0\<rparr>"
        example_mmc3 "example_mmc3\<lparr>mmc3_mapper := example_mapper', mmc3_mode_prg := False\<rparr>"
        example_mmc "example_mmc\<lparr>mmc_mapper := example_mapper', latches := [False, True]\<rparr>"]
      example_wf m w
    by simp
qed

section \<open>The bus operations of MMC2 and MMC4\<close>

lemma update_banks_latches [simp]: "latches (update_banks M x) = latches x"
  "selected_banks (update_banks M x) = selected_banks x"
  by (simp_all add: update_banks_def Let_def)

lemma update_banks_mapper:
  "mmc_mapper (update_banks M x) =
     map_bank_chr M 0x4 0x4 (push_bit 2 (ucast (selected_banks x ! (if latches x ! 1 then 2 else 3))))
       (map_bank_chr M 0x0 0x4 (push_bit 2 (ucast (selected_banks x ! (if latches x ! 0 then 0 else 1))))
          (mmc_mapper x))"
  by (simp add: update_banks_def Let_def)

lemma and_one_bit0: "(val AND 0x01 \<noteq> 0) = bit (val :: u8) 0"
  by (simp add: and_one_eq bit_0 mod_2_eq_odd)

lemma unat_ucast_u8_u16: "unat (ucast (w :: u8) :: u16) = unat w"
proof -
  have "unat w < 2 ^ 8"
    using unsigned_less [of w, where 'a = nat] by simp
  then have "unat w < 2 ^ 16"
    by simp
  then show ?thesis
    by (simp add: unsigned_ucast_eq take_bit_nat_eq_self)
qed

lemma prg_page_no_wrap:
  "unat (ucast (val AND 0xF :: u8) * ucast (BANK_SIZE :: u8) :: u16) = unat (val AND 0xF) * unat BANK_SIZE"
proof -
  have "val AND 0xF \<le> 0xF"
    by (rule word_and_le1)
  then have a: "unat (val AND 0xF) \<le> 15"
    by (simp add: word_le_nat_alt)
  have "unat BANK_SIZE < 2 ^ 8"
    using unsigned_less [of BANK_SIZE, where 'a = nat] by simp
  then have b: "unat BANK_SIZE \<le> 255"
    by simp
  have "unat (val AND 0xF) * unat BANK_SIZE \<le> 15 * 255"
    using a b by (rule mult_mono) simp_all
  then have "unat (ucast (val AND 0xF) :: u16) * unat (ucast BANK_SIZE :: u16) < 2 ^ LENGTH(16)"
    by (simp only: unat_ucast_u8_u16) simp
  then have "unat (ucast (val AND 0xF) * ucast BANK_SIZE :: u16) =
      unat (ucast (val AND 0xF) :: u16) * unat (ucast BANK_SIZE :: u16)"
    by (rule unat_mult_lem [THEN iffD1])
  then show ?thesis
    by (simp only: unat_ucast_u8_u16)
qed

lemma example_mmc2_wf: "MMC_wf example_mmc2"
  by (simp add: MMC_wf_def example_mmc2_def)

text \<open>
  C6. For MMC2/MMC4, a PPU read at \<open>0x0FD8\<close> switches latch 0 on and a read at \<open>0x0FE8\<close>
  switches it off; a read in \<open>0x1FD8-0x1FDF\<close> switches latch 1 on and a read in
  \<open>0x1FE8-0x1FEF\<close> switches it off. After each such read the CHR banks are mapped anew:
  pages \<open>0x0-0x3\<close> from bank register 0 when latch 0 is on and from register 1 when it
  is off, pages \<open>0x4-0x7\<close> from register 2 when latch 1 is on and from register 3 when
  it is off (\<open>map_bank_chr\<close> receives the register shifted left by two as the 1 KiB bank
  index). A read at any other address changes neither latch and remaps nothing; the bank
  registers are never changed by a read.
\<close>

theorem MMC_read_ppu_latches:
  assumes "MMC_wf x"
  shows
    "(address = 0x0FD8 \<longrightarrow> latches (snd (MMC_read_ppu M address x)) = [True, latches x ! 1]) \<and>
     (address = 0x0FE8 \<longrightarrow> latches (snd (MMC_read_ppu M address x)) = [False, latches x ! 1]) \<and>
     (0x1FD8 \<le> address \<and> address \<le> 0x1FDF \<longrightarrow>
        latches (snd (MMC_read_ppu M address x)) = [latches x ! 0, True]) \<and>
     (0x1FE8 \<le> address \<and> address \<le> 0x1FEF \<longrightarrow>
        latches (snd (MMC_read_ppu M address x)) = [latches x ! 0, False]) \<and>
     (latch_trigger address \<longrightarrow>
        mmc_mapper (snd (MMC_read_ppu M address x)) =
          map_bank_chr M 0x4 0x4
            (push_bit 2 (ucast (selected_banks x !
               (if latches (snd (MMC_read_ppu M address x)) ! 1 then 2 else 3))))
            (map_bank_chr M 0x0 0x4
               (push_bit 2 (ucast (selected_banks x !
                  (if latches (snd (MMC_read_ppu M address x)) ! 0 then 0 else 1))))
               (snd (Mapper_read_ppu M address (mmc_mapper x))))) \<and>
     (\<not> latch_trigger address \<longrightarrow>
        snd (MMC_read_ppu M address x) =
          x\<lparr>mmc_mapper := snd (Mapper_read_ppu M address (mmc_mapper x))\<rparr>) \<and>
     selected_banks (snd (MMC_read_ppu M address x)) = selected_banks x"
proof -
  have "length (latches x) = Suc (Suc 0)"
    using assms by (simp add: MMC_wf_def)
  then obtain l0 l1 where l: "latches x = [l0, l1]"
    by (auto simp add: length_Suc_conv)
  have hi: "address < 0x1FE0 \<longleftrightarrow> address \<le> 0x1FDF" "address < 0x1FF0 \<longleftrightarrow> address \<le> 0x1FEF"
    by (simp_all add: word_less_nat_alt word_le_nat_alt) arith+
  let ?c3 = "address \<ge> 0x1FD8 \<and> address < 0x1FE0"
  let ?c4 = "address \<ge> 0x1FE8 \<and> address < 0x1FF0"
  have c3: "?c3 \<longleftrightarrow> 0x1FD8 \<le> address \<and> address \<le> 0x1FDF"
    and c4: "?c4 \<longleftrightarrow> 0x1FE8 \<le> address \<and> address \<le> 0x1FEF"
    using hi by simp_all
  consider (a) "address = 0x0FD8" | (b) "address = 0x0FE8" | (c) "?c3" | (d) "?c4"
    | (e) "\<not> latch_trigger address"
    unfolding latch_trigger_def c3 c4 by blast
  then show ?thesis
  proof cases
    case a
    then show ?thesis
      by (simp add: MMC_read_ppu_def case_prod_beta update_banks_mapper latch_trigger_def l)
  next
    case b
    then show ?thesis
      by (simp add: MMC_read_ppu_def case_prod_beta update_banks_mapper latch_trigger_def l)
  next
    case c
    then have t: "address \<noteq> 0x0FD8" "address \<noteq> 0x0FE8" "\<not> ?c4"
      by (auto simp add: word_le_nat_alt word_less_nat_alt)
    have s: "snd (MMC_read_ppu M address x) =
        update_banks M (x\<lparr>mmc_mapper := snd (Mapper_read_ppu M address (mmc_mapper x)),
                          latches := [l0, True]\<rparr>)"
      by (simp add: MMC_read_ppu_def case_prod_beta Let_def c t l)
    have n3: "0x1FD8 \<le> address \<and> address \<le> 0x1FDF"
      using c c3 by blast
    have n4: "\<not> (0x1FE8 \<le> address \<and> address \<le> 0x1FEF)"
      using t(3) c4 by blast
    have lt: "latch_trigger address"
      unfolding latch_trigger_def using n3 by blast
    note n = n3 n4 lt
    show ?thesis
      by (simp add: s n t update_banks_mapper l)
  next
    case d
    then have t: "address \<noteq> 0x0FD8" "address \<noteq> 0x0FE8" "\<not> ?c3"
      by (auto simp add: word_le_nat_alt word_less_nat_alt)
    have s: "snd (MMC_read_ppu M address x) =
        update_banks M (x\<lparr>mmc_mapper := snd (Mapper_read_ppu M address (mmc_mapper x)),
                          latches := [l0, False]\<rparr>)"
      by (simp add: MMC_read_ppu_def case_prod_beta Let_def d t l)
    have n4: "0x1FE8 \<le> address \<and> address \<le> 0x1FEF"
      using d c4 by blast
    have n3: "\<not> (0x1FD8 \<le> address \<and> address \<le> 0x1FDF)"
      using t(3) c3 by blast
    have lt: "latch_trigger address"
      unfolding latch_trigger_def using n4 by blast
    note n = n3 n4 lt
    show ?thesis
      by (simp add: s n t update_banks_mapper l)
  next
    case e
    then have t: "address \<noteq> 0x0FD8" "address \<noteq> 0x0FE8" "\<not> ?c3" "\<not> ?c4"
      by (simp_all add: latch_trigger_def c3 c4)
    have n: "\<not> (0x1FD8 \<le> address \<and> address \<le> 0x1FDF)"
      "\<not> (0x1FE8 \<le> address \<and> address \<le> 0x1FEF)"
      using t c3 c4 by blast+
    have s: "snd (MMC_read_ppu M address x) =
        x\<lparr>mmc_mapper := snd (Mapper_read_ppu M address (mmc_mapper x))\<rparr>"
      by (simp add: MMC_read_ppu_def case_prod_beta Let_def t)
    show ?thesis
      by (simp add: s n t e)
  qed
qed

theorem MMC_read_ppu_latches_witness:
  "MMC_wf example_mmc2 \<and> latch_trigger 0x0FD8 \<and> latch_trigger 0x1FEA \<and> \<not> latch_trigger 0x0FD9 \<and>
   latches example_mmc2 = [False, True] \<and> selected_banks example_mmc2 = [1, 2, 3, 4] \<and>
   latches (snd (MMC_read_ppu logging_base 0x0FD8 example_mmc2)) = [True, True] \<and>
   mmc_mapper (snd (MMC_read_ppu logging_base 0x0FD8 example_mmc2)) =
     [Read_ppu 0x0FD8, Map_bank_chr 0x0 0x4 4, Map_bank_chr 0x4 0x4 12] \<and>
   latches (snd (MMC_read_ppu logging_base 0x1FEA example_mmc2)) = [False, False] \<and>
   mmc_mapper (snd (MMC_read_ppu logging_base 0x1FEA example_mmc2)) =
     [Read_ppu 0x1FEA, Map_bank_chr 0x0 0x4 8, Map_bank_chr 0x4 0x4 16] \<and>
   snd (MMC_read_ppu logging_base 0x0FD9 example_mmc2) = example_mmc2\<lparr>mmc_mapper := [Read_ppu 0x0FD9]\<rparr>"
proof -
  have t: "latch_trigger 0x0FD8" "latch_trigger 0x1FEA" "\<not> latch_trigger 0x0FD9"
    by (simp_all add: latch_trigger_def)
  have e: "latches example_mmc2 = [False, True]" "selected_banks example_mmc2 = [1, 2, 3, 4]"
    "mmc_mapper example_mmc2 = []"
    by (simp_all add: example_mmc2_def)
  have r: "snd (Mapper_read_ppu logging_base a []) = [Read_ppu a]"
    "map_bank_chr logging_base p n a b = b @ [Map_bank_chr p n a]" for a p n b
    by (simp_all add: logging_base_def)
  show ?thesis
    using MMC_read_ppu_latches [OF example_mmc2_wf, of "0x0FD8" logging_base]
      MMC_read_ppu_latches [OF example_mmc2_wf, of "0x1FEA" logging_base]
      MMC_read_ppu_latches [OF example_mmc2_wf, of "0x0FD9" logging_base]
      t example_mmc2_wf
    by (simp add: e r)
qed

text \<open>
  C7. For MMC2/MMC4, a CPU write with address in \<open>0xA000-0xAFFF\<close> remaps the low PRG
  window (\<open>BANK_SIZE\<close> pages from page \<open>0x20\<close>, that is, from address \<open>0x8000\<close>) to bank
  \<open>value & 0xF\<close>, whose first 1 KiB page is \<open>(value & 0xF) * BANK_SIZE\<close>, computed without
  wrap-around; a write in \<open>0xB000-0xEFFF\<close> stores \<open>value & 0x1F\<close> into the CHR bank
  register whose index is given by the \<open>0x1000\<close>-wide range of the address and maps the
  CHR banks anew; a write at \<open>0xF000\<close> or above sets horizontal mirroring when bit 0 of
  the value is 1 and vertical mirroring when it is 0.
\<close>

theorem MMC_write_cpu_registers:
  "(0xA000 \<le> address \<and> address \<le> 0xAFFF \<longrightarrow>
      MMC_write_cpu M BANK_SIZE address val x =
        x\<lparr>mmc_mapper :=
            map_bank_prg M 0x20 BANK_SIZE (ucast (val AND 0xF) * ucast BANK_SIZE) (mmc_mapper x)\<rparr> \<and>
      unat (ucast (val AND 0xF) * ucast BANK_SIZE :: u16) = unat (val AND 0xF) * unat BANK_SIZE) \<and>
   (0xB000 \<le> address \<and> address \<le> 0xEFFF \<longrightarrow>
      MMC_write_cpu M BANK_SIZE address val x =
        update_banks M
          (x\<lparr>selected_banks := (selected_banks x)[unat address div 0x1000 - 0xB := val AND 0x1F]\<rparr>) \<and>
      unat address div 0x1000 - 0xB < 4 \<and>
      (MMC_wf x \<longrightarrow>
         selected_banks (MMC_write_cpu M BANK_SIZE address val x) ! (unat address div 0x1000 - 0xB) =
           val AND 0x1F)) \<and>
   (0xF000 \<le> address \<longrightarrow>
      MMC_write_cpu M BANK_SIZE address val x =
        x\<lparr>mmc_mapper :=
            set_mirroring_mode M (if bit val 0 then HORIZONTAL else VERTICAL) (mmc_mapper x)\<rparr>)"
proof (intro conjI impI)
  assume "0xA000 \<le> address \<and> address \<le> 0xAFFF"
  then have "\<not> address < 0xA000" "address < 0xB000"
    by (simp_all add: word_le_nat_alt word_less_nat_alt)
  then show "MMC_write_cpu M BANK_SIZE address val x =
        x\<lparr>mmc_mapper :=
            map_bank_prg M 0x20 BANK_SIZE (ucast (val AND 0xF) * ucast BANK_SIZE) (mmc_mapper x)\<rparr>"
    by (simp add: MMC_write_cpu_def)
next
  show "unat (ucast (val AND 0xF) * ucast BANK_SIZE :: u16) = unat (val AND 0xF) * unat BANK_SIZE"
    by (rule prg_page_no_wrap)
next
  assume a: "0xB000 \<le> address \<and> address \<le> 0xEFFF"
  then have r: "0xB000 \<le> unat address" "unat address \<le> 0xEFFF"
    by (simp_all add: word_le_nat_alt)
  have lt: "address < 0xC000 \<longleftrightarrow> unat address < 0xC000" "address < 0xD000 \<longleftrightarrow> unat address < 0xD000"
    "address < 0xE000 \<longleftrightarrow> unat address < 0xE000" "address < 0xF000" "\<not> address < 0xA000"
    "\<not> address < 0xB000"
    using r by (simp_all add: word_less_nat_alt)
  show w: "MMC_write_cpu M BANK_SIZE address val x =
        update_banks M
          (x\<lparr>selected_banks := (selected_banks x)[unat address div 0x1000 - 0xB := val AND 0x1F]\<rparr>)"
  proof -
    consider "unat address < 0xC000" | "0xC000 \<le> unat address" "unat address < 0xD000"
      | "0xD000 \<le> unat address" "unat address < 0xE000" | "0xE000 \<le> unat address"
      by linarith
    then show ?thesis
    proof cases
      case 1
      then have "unat address div 0x1000 - 0xB = 0" using r by simp
      then show ?thesis using 1 by (simp add: MMC_write_cpu_def lt)
    next
      case 2
      then have "unat address div 0x1000 - 0xB = 1" using r by simp
      then show ?thesis using 2 by (simp add: MMC_write_cpu_def lt)
    next
      case 3
      then have "unat address div 0x1000 - 0xB = 2" using r by simp
      then show ?thesis using 3 by (simp add: MMC_write_cpu_def lt)
    next
      case 4
      then have "unat address div 0x1000 - 0xB = 3" using r by simp
      then show ?thesis using 4 by (simp add: MMC_write_cpu_def lt)
    qed
  qed
  show i: "unat address div 0x1000 - 0xB < 4"
    using r by simp
  assume "MMC_wf x"
  then show "selected_banks (MMC_write_cpu M BANK_SIZE address val x) ! (unat address div 0x1000 - 0xB) =
           val AND 0x1F"
    using i by (simp add: w MMC_wf_def)
next
  assume "0xF000 \<le> address"
  then have "\<not> address < 0xA000" "\<not> address < 0xB000" "\<not> address < 0xC000" "\<not> address < 0xD000"
    "\<not> address < 0xE000" "\<not> address < 0xF000"
    by (simp_all add: word_le_nat_alt word_less_nat_alt)
  then show "MMC_write_cpu M BANK_SIZE address val x =
        x\<lparr>mmc_mapper :=
            set_mirroring_mode M (if bit val 0 then HORIZONTAL else VERTICAL) (mmc_mapper x)\<rparr>"
    by (simp add: MMC_write_cpu_def and_one_bit0)
qed

theorem MMC_write_cpu_registers_witness:
  "MMC_wf example_mmc2 \<and>
   MMC_write_cpu logging_base 0x08 0xA123 0x35 example_mmc2 =
     example_mmc2\<lparr>mmc_mapper := [Map_bank_prg 0x20 0x08 40]\<rparr> \<and>
   MMC_write_cpu logging_base 0x10 0xAFFF 0x35 example_mmc2 =
     example_mmc2\<lparr>mmc_mapper := [Map_bank_prg 0x20 0x10 80]\<rparr> \<and>
   MMC_write_cpu logging_base 0x08 0xD456 0xFF example_mmc2 =
     example_mmc2\<lparr>mmc_mapper := [Map_bank_chr 0x0 0x4 8, Map_bank_chr 0x4 0x4 124],
                   selected_banks := [1, 2, 0x1F, 4]\<rparr> \<and>
   MMC_write_cpu logging_base 0x08 0xF000 0x03 example_mmc2 =
     example_mmc2\<lparr>mmc_mapper := [Set_mirroring_mode HORIZONTAL]\<rparr> \<and>
   MMC_write_cpu logging_base 0x08 0xFFFF 0x02 example_mmc2 =
     example_mmc2\<lparr>mmc_mapper := [Set_mirroring_mode VERTICAL]\<rparr>"
proof -
  have e: "latches example_mmc2 = [False, True]" "selected_banks example_mmc2 = [1, 2, 3, 4]"
    "mmc_mapper example_mmc2 = []"
    by (simp_all add: example_mmc2_def)
  have r: "map_bank_prg logging_base p n a b = b @ [Map_bank_prg p n a]"
    "map_bank_chr logging_base p n a b = b @ [Map_bank_chr p n a]"
    "set_mirroring_mode logging_base mode b = b @ [Set_mirroring_mode mode]" for a p n b mode
    by (simp_all add: logging_base_def)
  have i: "unat (0xD456 :: u16) div 0x1000 - 0xB = 2"
    by simp
  show ?thesis
    using MMC_write_cpu_registers [of "0xA123" logging_base "0x08" "0x35" example_mmc2]
      MMC_write_cpu_registers [of "0xAFFF" logging_base "0x10" "0x35" example_mmc2]
      MMC_write_cpu_registers [of "0xD456" logging_base "0x08" "0xFF" example_mmc2]
      MMC_write_cpu_registers [of "0xF000" logging_base "0x08" "0x03" example_mmc2]
      MMC_write_cpu_registers [of "0xFFFF" logging_base "0x08" "0x02" example_mmc2]
      example_mmc2_wf
    by (simp add: e r i update_banks_def)
qed

text \<open>
  C10. For MMC2/MMC4, the byte a PPU read returns is the one \<open>Mapper::read_ppu\<close> fetches
  from the base object as it is before the latch update, at trigger addresses as at all
  others; it does not depend on the latches or the bank registers. The latch change and
  the remapping act on later reads only: the next read fetches from the base object that
  the first one has left.
\<close>

theorem MMC_read_ppu_value:
  "fst (MMC_read_ppu M address x) = fst (Mapper_read_ppu M address (mmc_mapper x)) \<and>
   fst (MMC_read_ppu M address (x\<lparr>latches := ls, selected_banks := sb\<rparr>)) =
     fst (MMC_read_ppu M address x) \<and>
   fst (MMC_read_ppu M address' (snd (MMC_read_ppu M address x))) =
     fst (Mapper_read_ppu M address' (mmc_mapper (snd (MMC_read_ppu M address x))))"
proof -
  have v: "fst (MMC_read_ppu M a y) = fst (Mapper_read_ppu M a (mmc_mapper y))" for a y
    by (simp add: MMC_read_ppu_def Let_def split: prod.splits)
  show ?thesis
    by (simp add: v)
qed

theorem MMC_read_ppu_value_witness:
  "fst (MMC_read_ppu logging_base 0x0FD8 example_mmc2) = 0 \<and>
   fst (Mapper_read_ppu logging_base 0x0FD8 (mmc_mapper example_mmc2)) = 0 \<and>
   fst (MMC_read_ppu logging_base 0x0000 (snd (MMC_read_ppu logging_base 0x0FD8 example_mmc2))) = 3"
proof -
  have "fst (Mapper_read_ppu logging_base 0x0FD8 (mmc_mapper example_mmc2)) = 0"
    by (simp add: logging_base_def example_mmc2_def)
  moreover have "mmc_mapper (snd (MMC_read_ppu logging_base 0x0FD8 example_mmc2)) =
      [Read_ppu 0x0FD8, Map_bank_chr 0x0 0x4 4, Map_bank_chr 0x4 0x4 12]"
    by (simp add: MMC_read_ppu_def update_banks_def logging_base_def example_mmc2_def)
  ultimately show ?thesis
    using MMC_read_ppu_value [of logging_base "0x0FD8" example_mmc2 "[]" "[]" "0x0000"]
    by (simp add: logging_base_def)
qed

section \<open>The Python wrapper\<close>

lemma and_not_self_word: "(f AND NOT w) AND w = (0 :: 'a::len word)"
  by (simp add: and.assoc)

lemma NesWrapper_step_frame: "fst (NesWrapper_step N frames w) = frame w"
  by (simp add: NesWrapper_step_def split: prod.splits)

lemma NesWrapper_load_cases:
  "(writeable buffer \<longrightarrow>
      (\<exists>p. mutable_data buffer = Inr p \<and>
         NesWrapper_load N buffer w = Inr (w\<lparr>nes := NES_load N p (nes w), crashed := False\<rparr>))) \<and>
   (\<not> writeable buffer \<longrightarrow> NesWrapper_load N buffer w = Inl domain_error)"
  by (simp add: NesWrapper_load_def mutable_data_def)

lemma NesWrapper_call_frame:
  "frame (NesWrapper_call N c w) = frame w \<and>
   (\<not> is_load c \<longrightarrow> crashed w \<longrightarrow> crashed (NesWrapper_call N c w))"
proof (cases c)
  case (Load buffer)
  then show ?thesis
    using NesWrapper_load_cases [of buffer N w] by (cases "writeable buffer") auto
qed (simp_all add: NesWrapper_step_def NesWrapper_save_def split: prod.splits)

lemma NesWrapper_run_frame: "frame (NesWrapper_run N calls w) = frame w"
  by (induction calls arbitrary: w) (simp_all add: NesWrapper_call_frame)

lemma NesWrapper_run_crashed:
  "crashed w \<Longrightarrow> \<forall>c \<in> set calls. \<not> is_load c \<Longrightarrow> crashed (NesWrapper_run N calls w)"
  by (induction calls arbitrary: w) (simp_all add: NesWrapper_call_frame)

lemma example_crashed_eq:
  "example_crashed =
     example_wrapper\<lparr>nes := \<lparr>memory_cpu = replicate 2048 0x02, others = ()\<rparr>, crashed := True\<rparr>"
  by (simp add: example_crashed_def NesWrapper_step_def example_NES_def example_wrapper_def
      NesWrapper_init_def)

lemma example_buffers:
  "writeable example_buffer" "\<not> writeable example_readonly" "writeable example_state"
  by (simp_all add: writeable_def example_buffer_def example_readonly_def example_state_def
      NPY_ARRAY_WRITEABLE_def)

text \<open>
  C3. For every handle, that is, after any sequence of calls on a freshly constructed
  wrapper (a \<open>load\<close> that throws included), the frame view that \<open>step\<close> returns has
  shape \<open>240 x 256 x 3\<close> with one byte per item, row-major strides (\<open>768, 3, 1\<close>: rows of
  256 pixels of 3 bytes R, G, B), views the facade's frame buffer, and has the flag
  \<open>NPY_ARRAY_WRITEABLE\<close> cleared, so that numpy rejects writes through it.
\<close>

theorem step_frame_view:
  "shape (fst (NesWrapper_step N frames (NesWrapper_run N calls (NesWrapper_init N n flags0)))) =
     [240, 256, 3] \<and>
   strides (fst (NesWrapper_step N frames (NesWrapper_run N calls (NesWrapper_init N n flags0)))) =
     row_major_strides [240, 256, 3] 1 \<and>
   data (fst (NesWrapper_step N frames (NesWrapper_run N calls (NesWrapper_init N n flags0)))) =
     frame_buffer_ptr \<and>
   flags (fst (NesWrapper_step N frames (NesWrapper_run N calls (NesWrapper_init N n flags0))))
     AND NPY_ARRAY_WRITEABLE = 0"
proof -
  have "fst (NesWrapper_step N frames (NesWrapper_run N calls (NesWrapper_init N n flags0))) =
      frame (NesWrapper_init N n flags0)"
    by (simp add: NesWrapper_step_frame NesWrapper_run_frame)
  also have "\<dots> = \<lparr>shape = [240, 256, 3], strides = [256 * 3, 3, 1], data = frame_buffer_ptr,
      flags = flags0 AND NOT NPY_ARRAY_WRITEABLE\<rparr>"
    by (simp add: NesWrapper_init_def)
  finally show ?thesis
    by (simp add: and_not_self_word)
qed

theorem step_frame_view_witness:
  "fst (NesWrapper_step example_NES 1
     (NesWrapper_run example_NES
        [Step 2, Save, Load example_buffer, Load example_readonly, Set_controller 0x80]
        example_wrapper)) =
   \<lparr>shape = [240, 256, 3], strides = [768, 3, 1], data = frame_buffer_ptr, flags = 0x0101\<rparr>"
proof -
  let ?v = "fst (NesWrapper_step example_NES 1
     (NesWrapper_run example_NES
        [Step 2, Save, Load example_buffer, Load example_readonly, Set_controller 0x80]
        example_wrapper))"
  have s: "shape ?v = [240, 256, 3]" "strides ?v = row_major_strides [240, 256, 3] 1"
    "data ?v = frame_buffer_ptr"
    using step_frame_view [of example_NES 1
        "[Step 2, Save, Load example_buffer, Load example_readonly, Set_controller 0x80]"
        "\<lparr>memory_cpu = replicate 2048 0x00, others = ()\<rparr>" "0x0501"]
    unfolding example_wrapper_def by simp_all
  have "?v = frame example_wrapper"
    by (simp only: NesWrapper_step_frame NesWrapper_run_frame)
  then have "flags ?v = 0x0101"
    by (simp add: example_wrapper_def NesWrapper_init_def NPY_ARRAY_WRITEABLE_def)
  then show ?thesis
    using s by (cases ?v) simp
qed

text \<open>
  C5. Once the facade's \<open>step\<close> has reported a crash (a KIL opcode), \<open>has_crashed\<close> is
  true; it stays true across any sequence of later calls that contains no \<open>load\<close>, in
  particular across any sequence of \<open>step\<close> calls; a \<open>load\<close> that succeeds makes it
  false, and a \<open>load\<close> that throws (on a buffer that is not writeable) leaves it as it is.
\<close>

theorem crash_flag_latched:
  "(fst (NES_step N (controller w) frames (nes w)) \<longrightarrow>
      has_crashed (snd (NesWrapper_step N frames w))) \<and>
   (has_crashed w \<and> (\<forall>c \<in> set calls. \<not> is_load c) \<longrightarrow>
      has_crashed (NesWrapper_run N calls w)) \<and>
   (writeable buffer \<longrightarrow>
      (\<exists>w'. NesWrapper_load N buffer w = Inr w' \<and> \<not> has_crashed w')) \<and>
   (\<not> writeable buffer \<longrightarrow>
      NesWrapper_load N buffer w = Inl domain_error \<and>
      has_crashed (NesWrapper_call N (Load buffer) w) = has_crashed w)"
proof (intro conjI impI)
  assume "fst (NES_step N (controller w) frames (nes w))"
  then show "has_crashed (snd (NesWrapper_step N frames w))"
    by (auto simp add: has_crashed_def NesWrapper_step_def split: prod.splits)
next
  assume "has_crashed w \<and> (\<forall>c \<in> set calls. \<not> is_load c)"
  then show "has_crashed (NesWrapper_run N calls w)"
    using NesWrapper_run_crashed [of w calls N] by (simp add: has_crashed_def)
next
  assume "writeable buffer"
  then show "\<exists>w'. NesWrapper_load N buffer w = Inr w' \<and> \<not> has_crashed w'"
    using NesWrapper_load_cases [of buffer N w] by (auto simp add: has_crashed_def)
next
  assume a: "\<not> writeable buffer"
  then show l: "NesWrapper_load N buffer w = Inl domain_error"
    using NesWrapper_load_cases [of buffer N w] by simp
  show "has_crashed (NesWrapper_call N (Load buffer) w) = has_crashed w"
    by (simp add: l)
qed

theorem crash_flag_latched_witness:
  "fst (NES_step example_NES (controller example_crashed) 1 (nes example_crashed)) \<and>
   has_crashed example_crashed \<and>
   has_crashed (snd (NesWrapper_step example_NES 1 example_crashed)) \<and>
   has_crashed (NesWrapper_run example_NES
      [Step 1, Save, Step 3, Read_all_ram, Set_controller 1, Step 1] example_crashed) \<and>
   writeable example_state \<and>
   (\<exists>w'. NesWrapper_load example_NES example_state example_crashed = Inr w' \<and>
          \<not> has_crashed w') \<and>
   \<not> writeable example_readonly \<and>
   NesWrapper_load example_NES example_readonly example_crashed = Inl domain_error \<and>
   has_crashed (NesWrapper_call example_NES (Load example_readonly) example_crashed)"
proof -
  have a: "fst (NES_step example_NES (controller example_crashed) 1 (nes example_crashed))"
    by (simp add: example_crashed_eq example_NES_def)
  have b: "has_crashed example_crashed"
    by (simp add: example_crashed_eq has_crashed_def)
  show ?thesis
    using crash_flag_latched [of example_NES example_crashed 1
        "[Step 1, Save, Step 3, Read_all_ram, Set_controller 1, Step 1]" example_state]
      crash_flag_latched [of example_NES example_crashed 1 "[]" example_readonly]
      a b example_buffers
    by simp
qed

text \<open>
  C2, as claimed: \<open>load\<close> with a buffer whose length differs from the expected
  save-state size raises \<open>InvalidSaveStateError\<close> and leaves the handle unchanged. It does
  neither: on a crashed handle expecting 4 bytes, a writeable buffer of 1 byte is
  accepted, no error of any kind is raised, and the crash flag is cleared.
\<close>

theorem load_wrong_length_counterexample:
  "length (elements example_buffer) \<noteq> save_state_size example_crashed \<and>
   crashed example_crashed \<and>
   NesWrapper_load example_NES example_buffer example_crashed \<noteq> Inl InvalidSaveStateError \<and>
   NesWrapper_load example_NES example_buffer example_crashed \<noteq> Inl domain_error \<and>
   NesWrapper_load example_NES example_buffer example_crashed \<noteq> Inr example_crashed"
proof -
  obtain p where l: "NesWrapper_load example_NES example_buffer example_crashed =
      Inr (example_crashed\<lparr>nes := NES_load example_NES p (nes example_crashed), crashed := False\<rparr>)"
    using NesWrapper_load_cases [of example_buffer example_NES example_crashed] example_buffers(1)
    by blast
  have c: "crashed example_crashed" "save_state_size example_crashed = 4"
    "length (elements example_buffer) = 1"
    by (simp_all add: example_crashed_eq example_wrapper_def NesWrapper_init_def example_NES_def
        example_buffer_def)
  have "crashed (example_crashed\<lparr>nes := NES_load example_NES p (nes example_crashed),
      crashed := False\<rparr>) \<noteq> crashed example_crashed"
    using c(1) by simp
  then have "example_crashed\<lparr>nes := NES_load example_NES p (nes example_crashed),
      crashed := False\<rparr> \<noteq> example_crashed"
    by (rule contrapos_nn) (rule arg_cong)
  then show ?thesis
    using l c by simp
qed

text \<open>
  C2, amended: \<open>load\<close> never compares the buffer's length with the expected save-state
  size and never raises \<open>InvalidSaveStateError\<close>; whether it raises does not depend on
  the expected size. For every handle and every writeable buffer, of any length, it
  raises nothing, hands the buffer's data pointer to the facade's \<open>load\<close> and clears the
  crash flag, leaving the controller byte, the save-state size and the frame view as
  they are. For a buffer that is not writeable, \<open>mutable_data\<close> throws pybind11's
  \<open>std::domain_error\<close> before anything is changed.
\<close>

theorem load_checks_no_length:
  "NesWrapper_load N buffer w \<noteq> Inl InvalidSaveStateError \<and>
   (NesWrapper_load N buffer (w\<lparr>save_state_size := k\<rparr>) = Inl e) =
     (NesWrapper_load N buffer w = Inl e) \<and>
   (writeable buffer \<longrightarrow>
      (\<exists>p. mutable_data buffer = Inr p \<and>
         NesWrapper_load N buffer w = Inr (w\<lparr>nes := NES_load N p (nes w), crashed := False\<rparr>))) \<and>
   (\<not> writeable buffer \<longrightarrow> NesWrapper_load N buffer w = Inl domain_error)"
proof (intro conjI)
  show "NesWrapper_load N buffer w \<noteq> Inl InvalidSaveStateError"
    by (simp add: NesWrapper_load_def mutable_data_def)
  show "(NesWrapper_load N buffer (w\<lparr>save_state_size := k\<rparr>) = Inl e) =
     (NesWrapper_load N buffer w = Inl e)"
    by (simp add: NesWrapper_load_def split: sum.splits)
  show "writeable buffer \<longrightarrow>
      (\<exists>p. mutable_data buffer = Inr p \<and>
         NesWrapper_load N buffer w = Inr (w\<lparr>nes := NES_load N p (nes w), crashed := False\<rparr>))"
    using NesWrapper_load_cases [of buffer N w] by simp
  show "\<not> writeable buffer \<longrightarrow> NesWrapper_load N buffer w = Inl domain_error"
    using NesWrapper_load_cases [of buffer N w] by simp
qed

theorem load_checks_no_length_witness:
  "length (elements example_buffer) \<noteq> save_state_size example_crashed \<and>
   writeable example_buffer \<and> \<not> writeable example_readonly \<and>
   NesWrapper_load example_NES example_buffer example_crashed =
     Inr (example_crashed
           \<lparr>nes := \<lparr>memory_cpu = [0x07, 0xEE, 0xEE, 0xEE] @ replicate 2044 0x02, others = ()\<rparr>,
            crashed := False\<rparr>) \<and>
   NesWrapper_load example_NES example_readonly example_crashed = Inl domain_error"
proof -
  have l: "save_state_size example_crashed = 4" "length (elements example_buffer) = 1"
    by (simp_all add: example_crashed_eq example_wrapper_def NesWrapper_init_def example_NES_def
        example_buffer_def)
  have n: "NES_load example_NES p (nes example_crashed) =
      \<lparr>memory_cpu = [p 0, p 1, p 2, p 3] @ replicate 2044 0x02, others = ()\<rparr>" for p
    by (simp add: example_crashed_eq example_NES_def)
  obtain p where p: "mutable_data example_buffer = Inr p"
    and r: "NesWrapper_load example_NES example_buffer example_crashed =
      Inr (example_crashed\<lparr>nes := NES_load example_NES p (nes example_crashed), crashed := False\<rparr>)"
    using load_checks_no_length [of example_NES example_buffer example_crashed] example_buffers(1)
    by blast
  have v: "p 0 = 0x07" "p 1 = 0xEE" "p 2 = 0xEE" "p 3 = 0xEE"
    using p example_buffers(1) by (auto simp add: mutable_data_def example_buffer_def)
  have e: "NesWrapper_load example_NES example_readonly example_crashed = Inl domain_error"
    using load_checks_no_length [of example_NES example_readonly example_crashed] example_buffers(2)
    by simp
  show ?thesis
    using example_buffers l e v by (simp add: r n)
qed

text \<open>
  C4. \<open>get_all_ram\<close> returns a view of exactly 2048 bytes (shape \<open>[2048]\<close>, stride 1) on
  the facade's CPU work RAM, and after a CPU write to an address in \<open>[0x0000, 0x0800)\<close>
  the byte of the view at that index is the value written.
\<close>

theorem ram_view_reflects_write:
  "get_ram_pointer N = memory_cpu \<Longrightarrow> length (memory_cpu (nes w)) = 2048 \<Longrightarrow> address < 0x0800 \<Longrightarrow>
   shape (read_all_ram flags0 (NesWrapper_write other address val w)) = [2048] \<and>
   strides (read_all_ram flags0 (NesWrapper_write other address val w)) = [1] \<and>
   length (view_bytes N (nes (NesWrapper_write other address val w))
             (read_all_ram flags0 (NesWrapper_write other address val w))) = 2048 \<and>
   view_at N (nes (NesWrapper_write other address val w))
     (read_all_ram flags0 (NesWrapper_write other address val w)) (unat address) = val"
proof -
  assume a: "get_ram_pointer N = memory_cpu" "length (memory_cpu (nes w)) = 2048" "address < 0x0800"
  have lt: "unat address < 2048"
    using a(3) by (simp add: word_less_nat_alt)
  have lt2: "address < 0x2000"
    using a(3) by (simp add: word_less_nat_alt)
  show ?thesis
    using a(1,2) lt lt2
    by (simp add: read_all_ram_def NesWrapper_write_def NES_write_cpu_def view_at_def view_bytes_def)
qed

theorem ram_view_reflects_write_witness:
  "get_ram_pointer example_NES = memory_cpu \<and> length (memory_cpu (nes example_wrapper)) = 2048 \<and>
   (0x07FF :: u16) < 0x0800 \<and>
   shape (read_all_ram 0x0501 (NesWrapper_write (\<lambda>a v n. n) 0x07FF 0xAB example_wrapper)) = [2048] \<and>
   view_at example_NES (nes (NesWrapper_write (\<lambda>a v n. n) 0x07FF 0xAB example_wrapper))
     (read_all_ram 0x0501 (NesWrapper_write (\<lambda>a v n. n) 0x07FF 0xAB example_wrapper)) 2047 = 0xAB"
proof -
  have a: "get_ram_pointer example_NES = memory_cpu"
    "length (memory_cpu (nes example_wrapper)) = 2048" "(0x07FF :: u16) < 0x0800"
    by (simp_all add: example_NES_def example_wrapper_def NesWrapper_init_def)
  show ?thesis
    using ram_view_reflects_write [OF a, of "0x0501" "\<lambda>a v n. n" "0xAB"] a
    by simp
qed

end
